theory Spec2Isabelle
  imports Main "HOL-Library.Sublist"
begin

section \<open>The widget refresh job of the summary-widget app\<close>

text \<open>
  The scheduler job \<open>onRun\<close> of \<^verbatim>\<open>src/main.tsx\<close> polls an HTTP endpoint and
  reconciles one named sidebar widget with what it fetched; the helper
  \<open>updateWidget\<close> of \<^verbatim>\<open>extendedDevvit.ts\<close> dispatches an update by widget type.

  The job only calls the platform: every awaited call is answered by the
  \<open>context\<close>, a record holding the settings, the key-value store and, for each
  remote operation, the answer it gives to each argument. A remote answer is a
  promise: it is \<open>Resolved\<close> with a value or \<open>Rejected\<close>, and a rejection is caught by
  the \<^verbatim>\<open>try\<close>/\<^verbatim>\<open>catch\<close> around the whole job. The job's value is the
  log line it ends on (\<open>outcome\<close>), the calls it issued, in order (\<open>calls\<close>), and the
  key-value store it leaves behind (\<open>redis_after\<close>).

  Every awaited call may be rejected: \<^verbatim>\<open>settings.get\<close>, \<^verbatim>\<open>redis.get\<close>,
  \<^verbatim>\<open>fetch\<close>, the body read, the widget API, the media upload and
  \<^verbatim>\<open>redis.set\<close>. The key-value store has a content, \<open>redis\<close>: a read that
  resolves answers with the stored value, a write that resolves stores its value, and a
  write that is rejected stores nothing. A value the source tests for truthiness is an
  \<open>option\<close> of a string, falsy when absent or empty.

  The outcome is the last of the job's own result lines: the line of the \<^verbatim>\<open>return\<close> it
  takes, or the success line of the update or the create. \<open>Crashed\<close> is a run cut short
  before any of them by an exception, which the \<^verbatim>\<open>catch\<close> block logs. The final
  \<^verbatim>\<open>redis.set\<close> comes after the success line, so a run in which it is rejected is
  still \<open>Updated\<close> or \<open>Created\<close>, with the store as it was.
\<close>

subsection \<open>JavaScript values\<close>

text \<open>
  \<^verbatim>\<open>String.prototype.toLowerCase\<close> on a byte string, one \<open>char\<close> for each code unit
  below 256: the value of a response header is such a string. The letters with a lower
  case in that range are A to Z (65 to 90) and the accented capitals 192 to 222 without the
  multiplication sign 215; each is folded to the code unit 32 above it.

  The widget-name setting and the names of the listed widgets are arbitrary JavaScript
  strings, kept here in some fixed encoding. Their \<^verbatim>\<open>toLowerCase\<close> is the
  runtime's folding of every cased letter; it is the field \<open>lowerCase\<close> of the
  \<open>context\<close>, and nothing is assumed of it.
\<close>

definition toLowerChar :: "char \<Rightarrow> char" where
  "toLowerChar c =
     (let n = (of_char c :: nat)
      in if (65 \<le> n \<and> n \<le> 90) \<or> (192 \<le> n \<and> n \<le> 222 \<and> n \<noteq> 215)
         then char_of (n + 32)
         else c)"

definition toLowerCase :: "string \<Rightarrow> string" where
  "toLowerCase s = map toLowerChar s"

text \<open>\<^verbatim>\<open>s.startsWith(p)\<close>.\<close>

definition startsWith :: "string \<Rightarrow> string \<Rightarrow> bool" where
  "startsWith s p = prefix p s"

text \<open>
  Truthiness of a \<^verbatim>\<open>string | undefined\<close>: \<^verbatim>\<open>undefined\<close>, \<^verbatim>\<open>null\<close> and the
  empty string are falsy.
\<close>

fun truthy :: "string option \<Rightarrow> bool" where
  "truthy None = False"
| "truthy (Some s) = (s \<noteq> [])"

subsection \<open>Data\<close>

datatype 'a reply = Rejected | Resolved 'a

datatype error = UnknownWidgetType | CollaboratorError

text \<open>
  The run-time class of a listed widget: the two classes the job tests with
  \<^verbatim>\<open>instanceof\<close>, and every other widget class of the platform.
\<close>

datatype widget_class = TextAreaWidget | ImageWidget | OtherWidget

record widget =
  w_id :: string
  w_name :: string
  w_class :: widget_class

record response =
  status :: nat
  statusText :: string
  contentType :: "string option"
  lastModified :: "string option"
  body :: "string reply"

record media_asset =
  mediaId :: string
  mediaUrl :: string

record image_data =
  url :: string
  linkUrl :: string
  width :: nat
  height :: nat

record widget_styles =
  backgroundColor :: string
  headerColor :: string

record UpdateWidgetData =
  wd_type :: string
  wd_id :: "string option"
  wd_subreddit :: string
  wd_shortName :: string
  wd_text :: "string option"
  wd_data :: "image_data option"
  wd_styles :: widget_styles

record "context" =
  subredditName :: "string option"
  settings :: "string \<Rightarrow> string option reply"
  lowerCase :: "string \<Rightarrow> string"
  redis :: "string \<rightharpoonup> string"
  redisGet :: "string \<Rightarrow> unit reply"
  redisSet :: "string \<Rightarrow> string \<Rightarrow> unit reply"
  fetch :: "string \<Rightarrow> string option \<Rightarrow> response reply"
  getWidgets :: "string \<Rightarrow> widget list reply"
  deleteWidget :: "string \<Rightarrow> string \<Rightarrow> unit reply"
  addWidget :: "UpdateWidgetData \<Rightarrow> widget option reply"
  upload :: "string \<Rightarrow> media_asset option reply"
  UpdateImageWidget :: "UpdateWidgetData \<Rightarrow> widget option reply"
  UpdateTextAreaWidget :: "UpdateWidgetData \<Rightarrow> widget option reply"

text \<open>The keys of \<^verbatim>\<open>SettingKeys\<close> and \<^verbatim>\<open>RedisKeys\<close> that the job uses.\<close>

definition SummaryWidgetName :: string where
  "SummaryWidgetName = ''summary-widget-name''"

definition SummaryWidgetDomain :: string where
  "SummaryWidgetDomain = ''summary-widget-domain''"

definition SummaryLastModified :: string where
  "SummaryLastModified = ''summary:widget:last_modified''"

subsection \<open>What a run yields\<close>

datatype reason =
    MissingSubredditName
  | MissingWidgetName
  | MissingWidgetDomain
  | HttpError
  | InvalidContentType
  | AmbiguousExisting
  | UnknownExistingType
  | UploadFailed
  | UpdateFailed
  | CreateFailed

datatype outcome = Updated | Created | Unchanged | Skipped reason | Crashed error

datatype call =
    SettingsGet string
  | RedisGet string
  | Fetch string "string option"
  | GetWidgets string
  | DeleteWidget string string
  | MediaUpload string
  | ReadText
  | UpdateWidget UpdateWidgetData
  | AddWidget UpdateWidgetData
  | RedisSet string string

record result =
  outcome :: outcome
  calls :: "call list"
  redis_after :: "string \<rightharpoonup> string"

text \<open>
  A run that ends here, leaving the key-value store as it was; and a run that issues
  the call \<open>c\<close> and goes on as \<open>r\<close>.
\<close>

definition stop :: "context \<Rightarrow> outcome \<Rightarrow> result" where
  "stop ctx oc = \<lparr>outcome = oc, calls = [], redis_after = redis ctx\<rparr>"

definition called :: "call \<Rightarrow> result \<Rightarrow> result" where
  "called c r = r\<lparr>calls := c # calls r\<rparr>"

subsection \<open>\<^verbatim>\<open>updateWidget\<close>\<close>

text \<open>
  A rejected promise of a collaborator surfaces as \<open>CollaboratorError\<close>; the helper's own
  \<^verbatim>\<open>throw new Error('Unknown widget type')\<close> is \<open>UnknownWidgetType\<close>.
\<close>

definition awaited :: "'a reply \<Rightarrow> error + 'a" where
  "awaited r = (case r of Rejected \<Rightarrow> Inl CollaboratorError | Resolved v \<Rightarrow> Inr v)"

definition updateWidget :: "context \<Rightarrow> UpdateWidgetData \<Rightarrow> error + widget option" where
  "updateWidget ctx widgetData =
     (if wd_type widgetData = ''image'' then awaited (UpdateImageWidget ctx widgetData)
      else if wd_type widgetData = ''textarea'' then awaited (UpdateTextAreaWidget ctx widgetData)
      else Inl UnknownWidgetType)"

subsection \<open>\<^verbatim>\<open>onRun\<close>, section by section, last section first\<close>

text \<open>
  Save Last Modified (lines 383-393), reached with the outcome \<open>oc\<close> already logged. A
  rejected write is caught: the outcome stands and nothing is stored.
\<close>

definition saveLastModified :: "context \<Rightarrow> response \<Rightarrow> outcome \<Rightarrow> result" where
  "saveLastModified ctx apiResult oc =
     (case lastModified apiResult of
        None \<Rightarrow> stop ctx oc
      | Some apiLastModified \<Rightarrow>
          if apiLastModified = [] then stop ctx oc
          else
            called (RedisSet SummaryLastModified apiLastModified)
              (case redisSet ctx SummaryLastModified apiLastModified of
                 Rejected \<Rightarrow> stop ctx oc
               | Resolved u \<Rightarrow>
                   \<lparr>outcome = oc, calls = [],
                    redis_after = (redis ctx)(SummaryLastModified \<mapsto> apiLastModified)\<rparr>))"

text \<open>Widget Add or Update: the two branches on \<^verbatim>\<open>widgetData.id\<close> (lines 366-381).\<close>

definition addOrUpdate :: "context \<Rightarrow> response \<Rightarrow> UpdateWidgetData \<Rightarrow> result" where
  "addOrUpdate ctx apiResult widgetData =
     (if truthy (wd_id widgetData) then
        called (UpdateWidget widgetData)
          (case updateWidget ctx widgetData of
             Inl e \<Rightarrow> stop ctx (Crashed e)
           | Inr None \<Rightarrow> stop ctx (Skipped UpdateFailed)
           | Inr (Some widgetUpdate) \<Rightarrow> saveLastModified ctx apiResult Updated)
      else
        called (AddWidget widgetData)
          (case addWidget ctx widgetData of
             Rejected \<Rightarrow> stop ctx (Crashed CollaboratorError)
           | Resolved None \<Rightarrow> stop ctx (Skipped CreateFailed)
           | Resolved (Some addedWidget) \<Rightarrow> saveLastModified ctx apiResult Created))"

text \<open>The widget data object (lines 346-364), given the text body when one was read.\<close>

definition buildWidgetData ::
  "bool \<Rightarrow> widget option \<Rightarrow> string \<Rightarrow> string \<Rightarrow> string option \<Rightarrow> media_asset option
     \<Rightarrow> UpdateWidgetData" where
  "buildWidgetData contentIsImage existingWidget subreddit widgetName txt mediaAsset =
     \<lparr>wd_type = (if contentIsImage then ''image'' else ''textarea''),
      wd_id = map_option w_id existingWidget,
      wd_subreddit = subreddit,
      wd_shortName = widgetName,
      wd_text = txt,
      wd_data = (case mediaAsset of
                   Some m \<Rightarrow> Some \<lparr>url = mediaUrl m, linkUrl = [], width = 0, height = 0\<rparr>
                 | None \<Rightarrow> None),
      wd_styles = \<lparr>backgroundColor = [], headerColor = []\<rparr>\<rparr>"

definition widgetAddOrUpdate ::
  "context \<Rightarrow> response \<Rightarrow> bool \<Rightarrow> widget option \<Rightarrow> string \<Rightarrow> string
     \<Rightarrow> media_asset option \<Rightarrow> result" where
  "widgetAddOrUpdate ctx apiResult contentIsImage existingWidget subreddit widgetName mediaAsset =
     (if contentIsImage then
        addOrUpdate ctx apiResult
          (buildWidgetData contentIsImage existingWidget subreddit widgetName None mediaAsset)
      else
        called ReadText
          (case body apiResult of
             Rejected \<Rightarrow> stop ctx (Crashed CollaboratorError)
           | Resolved txt \<Rightarrow>
               addOrUpdate ctx apiResult
                 (buildWidgetData contentIsImage existingWidget subreddit widgetName (Some txt)
                    mediaAsset)))"

text \<open>Image Upload (lines 331-341).\<close>

definition imageUpload ::
  "context \<Rightarrow> response \<Rightarrow> bool \<Rightarrow> widget option \<Rightarrow> string \<Rightarrow> string \<Rightarrow> string
     \<Rightarrow> result" where
  "imageUpload ctx apiResult contentIsImage existingWidget subreddit widgetName fetchUrl =
     (if contentIsImage then
        called (MediaUpload fetchUrl)
          (case upload ctx fetchUrl of
             Rejected \<Rightarrow> stop ctx (Crashed CollaboratorError)
           | Resolved None \<Rightarrow> stop ctx (Skipped UploadFailed)
           | Resolved (Some mediaAsset) \<Rightarrow>
               widgetAddOrUpdate ctx apiResult contentIsImage existingWidget subreddit
                 widgetName (Some mediaAsset))
      else
        widgetAddOrUpdate ctx apiResult contentIsImage existingWidget subreddit widgetName None)"

text \<open>Check Existing Widget Type (lines 322-327).\<close>

definition checkExistingWidgetType ::
  "context \<Rightarrow> response \<Rightarrow> bool \<Rightarrow> widget option \<Rightarrow> string \<Rightarrow> string \<Rightarrow> string
     \<Rightarrow> result" where
  "checkExistingWidgetType ctx apiResult contentIsImage existingWidget subreddit widgetName fetchUrl =
     (case existingWidget of
        None \<Rightarrow> imageUpload ctx apiResult contentIsImage None subreddit widgetName fetchUrl
      | Some w \<Rightarrow>
          (let existingIsImage = (w_class w = ImageWidget) in
           if existingIsImage \<noteq> contentIsImage then
             called (DeleteWidget subreddit (w_id w))
               (case deleteWidget ctx subreddit (w_id w) of
                  Rejected \<Rightarrow> stop ctx (Crashed CollaboratorError)
                | Resolved u \<Rightarrow>
                    imageUpload ctx apiResult contentIsImage None subreddit widgetName fetchUrl)
           else
             imageUpload ctx apiResult contentIsImage (Some w) subreddit widgetName fetchUrl))"

text \<open>Fetch Existing Widgets (lines 304-318).\<close>

definition nameMatchWidgets :: "context \<Rightarrow> widget list \<Rightarrow> string \<Rightarrow> widget list" where
  "nameMatchWidgets ctx subWidgets widgetName =
     filter (\<lambda>w. lowerCase ctx (w_name w) = widgetName) subWidgets"

definition fetchExistingWidgets ::
  "context \<Rightarrow> response \<Rightarrow> bool \<Rightarrow> string \<Rightarrow> string \<Rightarrow> string \<Rightarrow> result" where
  "fetchExistingWidgets ctx apiResult contentIsImage subreddit widgetName fetchUrl =
     called (GetWidgets subreddit)
       (case getWidgets ctx subreddit of
          Rejected \<Rightarrow> stop ctx (Crashed CollaboratorError)
        | Resolved subWidgets \<Rightarrow>
            (let matches = nameMatchWidgets ctx subWidgets widgetName
             in if length matches > 1 then stop ctx (Skipped AmbiguousExisting)
                else
                  (case matches of
                     [] \<Rightarrow>
                       checkExistingWidgetType ctx apiResult contentIsImage None subreddit
                         widgetName fetchUrl
                   | existingWidget # rest \<Rightarrow>
                       if w_class existingWidget \<noteq> TextAreaWidget
                          \<and> w_class existingWidget \<noteq> ImageWidget
                       then stop ctx (Skipped UnknownExistingType)
                       else
                         checkExistingWidgetType ctx apiResult contentIsImage
                           (Some existingWidget) subreddit widgetName fetchUrl)))"

text \<open>API Response Validation (lines 285-300).\<close>

definition apiResponseValidation ::
  "context \<Rightarrow> response \<Rightarrow> string \<Rightarrow> string \<Rightarrow> string \<Rightarrow> result" where
  "apiResponseValidation ctx apiResult subreddit widgetName fetchUrl =
     (if status apiResult = 304 then stop ctx Unchanged
      else if status apiResult \<noteq> 200 then stop ctx (Skipped HttpError)
      else
        (case map_option toLowerCase (contentType apiResult) of
           None \<Rightarrow> stop ctx (Skipped InvalidContentType)
         | Some resultContentType \<Rightarrow>
             if resultContentType = []
                \<or> (\<not> startsWith resultContentType ''text/plain''
                    \<and> \<not> startsWith resultContentType ''image/'')
             then stop ctx (Skipped InvalidContentType)
             else
               fetchExistingWidgets ctx apiResult (startsWith resultContentType ''image/'')
                 subreddit widgetName fetchUrl))"

text \<open>
  Call API (lines 271-281): the request carries \<^verbatim>\<open>If-Modified-Since\<close> when a token
  is stored.
\<close>

definition fetchUrl :: "string \<Rightarrow> string" where
  "fetchUrl widgetDomain = ''https://'' @ widgetDomain @ ''/api/v1''"

definition ifModifiedSince :: "string option \<Rightarrow> string option" where
  "ifModifiedSince stored = (if truthy stored then stored else None)"

definition callApi :: "context \<Rightarrow> string \<Rightarrow> string \<Rightarrow> string \<Rightarrow> result" where
  "callApi ctx subreddit widgetName widgetDomain =
     called (RedisGet SummaryLastModified)
       (case redisGet ctx SummaryLastModified of
          Rejected \<Rightarrow> stop ctx (Crashed CollaboratorError)
        | Resolved u \<Rightarrow>
            (let headers = ifModifiedSince (redis ctx SummaryLastModified)
             in called (Fetch (fetchUrl widgetDomain) headers)
                  (case fetch ctx (fetchUrl widgetDomain) headers of
                     Rejected \<Rightarrow> stop ctx (Crashed CollaboratorError)
                   | Resolved apiResult \<Rightarrow>
                       apiResponseValidation ctx apiResult subreddit widgetName
                         (fetchUrl widgetDomain))))"

text \<open>Parameter Validation (lines 255-267), and with it the whole job.\<close>

definition onRun :: "context \<Rightarrow> result" where
  "onRun ctx =
     (case subredditName ctx of
        None \<Rightarrow> stop ctx (Skipped MissingSubredditName)
      | Some subreddit \<Rightarrow>
          if subreddit = [] then stop ctx (Skipped MissingSubredditName)
          else
            called (SettingsGet SummaryWidgetName)
              (case settings ctx SummaryWidgetName of
                 Rejected \<Rightarrow> stop ctx (Crashed CollaboratorError)
               | Resolved None \<Rightarrow> stop ctx (Skipped MissingWidgetName)
               | Resolved (Some name) \<Rightarrow>
                   (let widgetName = lowerCase ctx name
                    in if widgetName = [] then stop ctx (Skipped MissingWidgetName)
                       else
                         called (SettingsGet SummaryWidgetDomain)
                           (case settings ctx SummaryWidgetDomain of
                              Rejected \<Rightarrow> stop ctx (Crashed CollaboratorError)
                            | Resolved None \<Rightarrow> stop ctx (Skipped MissingWidgetDomain)
                            | Resolved (Some widgetDomain) \<Rightarrow>
                                if widgetDomain = []
                                then stop ctx (Skipped MissingWidgetDomain)
                                else callApi ctx subreddit widgetName widgetDomain))))"

subsection \<open>Reading a run\<close>

text \<open>
  The response the run's fetch resolved with, and the widgets its listing resolved
  with: \<open>None\<close> when the run issued no such call or the call was rejected.
\<close>

fun fetchedIn :: "context \<Rightarrow> call list \<Rightarrow> response option" where
  "fetchedIn ctx [] = None"
| "fetchedIn ctx (Fetch u h # cs) =
     (case fetch ctx u h of Rejected \<Rightarrow> None | Resolved r \<Rightarrow> Some r)"
| "fetchedIn ctx (c # cs) = fetchedIn ctx cs"

definition fetched :: "context \<Rightarrow> response option" where
  "fetched ctx = fetchedIn ctx (calls (onRun ctx))"

fun listedIn :: "context \<Rightarrow> call list \<Rightarrow> widget list option" where
  "listedIn ctx [] = None"
| "listedIn ctx (GetWidgets s # cs) =
     (case getWidgets ctx s of Rejected \<Rightarrow> None | Resolved ws \<Rightarrow> Some ws)"
| "listedIn ctx (c # cs) = listedIn ctx cs"

definition listed :: "context \<Rightarrow> widget list option" where
  "listed ctx = listedIn ctx (calls (onRun ctx))"

text \<open>The kinds of call the properties count.\<close>

fun isDelete :: "call \<Rightarrow> bool" where
  "isDelete (DeleteWidget s i) = True"
| "isDelete c = False"

fun isUpload :: "call \<Rightarrow> bool" where
  "isUpload (MediaUpload u) = True"
| "isUpload c = False"

fun isUpdate :: "call \<Rightarrow> bool" where
  "isUpdate (UpdateWidget d) = True"
| "isUpdate c = False"

fun isCreate :: "call \<Rightarrow> bool" where
  "isCreate (AddWidget d) = True"
| "isCreate c = False"

fun isTokenWrite :: "call \<Rightarrow> bool" where
  "isTokenWrite (RedisSet k v) = True"
| "isTokenWrite c = False"

fun isList :: "call \<Rightarrow> bool" where
  "isList (GetWidgets s) = True"
| "isList c = False"

definition isCreateOrUpdate :: "call \<Rightarrow> bool" where
  "isCreateOrUpdate c = (isCreate c \<or> isUpdate c)"

definition isMutation :: "call \<Rightarrow> bool" where
  "isMutation c = (isDelete c \<or> isUpload c \<or> isUpdate c \<or> isCreate c \<or> isTokenWrite c)"

definition mutations :: "call list \<Rightarrow> call list" where
  "mutations cs = filter isMutation cs"

definition sideEffects :: "call list \<Rightarrow> call list" where
  "sideEffects cs = filter (\<lambda>c. isList c \<or> isMutation c) cs"

text \<open>A call that is not an update, or an update of one of the two widget types.\<close>

fun knownType :: "call \<Rightarrow> bool" where
  "knownType (UpdateWidget d) = (wd_type d = ''image'' \<or> wd_type d = ''textarea'')"
| "knownType c = True"


text \<open>
  The token part of a run that ends in \<open>oc\<close> on the response \<open>r\<close>: the write it
  issues and the store it leaves (lines 383-393 are reached from the two successes only,
  and the write stores when it resolves).
\<close>

definition tokenWrites :: "response \<Rightarrow> outcome \<Rightarrow> call list" where
  "tokenWrites r oc =
     (case lastModified r of
        None \<Rightarrow> []
      | Some v \<Rightarrow>
          if v \<noteq> [] \<and> (oc = Updated \<or> oc = Created) then [RedisSet SummaryLastModified v]
          else [])"

definition tokenAfter :: "context \<Rightarrow> response \<Rightarrow> outcome \<Rightarrow> string \<rightharpoonup> string" where
  "tokenAfter ctx r oc =
     (case lastModified r of
        None \<Rightarrow> redis ctx
      | Some v \<Rightarrow>
          if v \<noteq> [] \<and> (oc = Updated \<or> oc = Created)
             \<and> redisSet ctx SummaryLastModified v = Resolved ()
          then (redis ctx)(SummaryLastModified \<mapsto> v)
          else redis ctx)"

text \<open>
  The platform \<open>ctx\<close>, except that every response to a fetch declares the content type
  \<open>ct\<close> (\<open>None\<close>: it has no \<^verbatim>\<open>Content-Type\<close> header).
\<close>

definition declaring :: "string option \<Rightarrow> context \<Rightarrow> context" where
  "declaring ct ctx =
     ctx\<lparr>fetch := (\<lambda>u h. map_reply (\<lambda>r. r\<lparr>contentType := ct\<rparr>) (fetch ctx u h))\<rparr>"

subsection \<open>Sample platforms\<close>

text \<open>
  A platform on which every collaborator succeeds: the fetch resolves with \<open>r\<close>, the
  listing with \<open>ws\<close>, and a token from an earlier run is stored. Its names are byte
  strings, folded by \<open>toLowerCase\<close>.
\<close>

definition sampleSettings :: "string \<Rightarrow> string \<rightharpoonup> string" where
  "sampleSettings name =
     [SummaryWidgetName \<mapsto> name, SummaryWidgetDomain \<mapsto> ''rhurricane.net'']"

definition samplePlatform :: "response \<Rightarrow> widget list \<Rightarrow> context" where
  "samplePlatform r ws =
     \<lparr>subredditName = Some ''hurricane'',
      settings = (\<lambda>k. Resolved (sampleSettings ''Tropical Summary'' k)),
      lowerCase = toLowerCase,
      redis = [SummaryLastModified \<mapsto> ''Mon, 02 Nov 2026 08:00:00 GMT''],
      redisGet = (\<lambda>k. Resolved ()),
      redisSet = (\<lambda>k v. Resolved ()),
      fetch = (\<lambda>u h. Resolved r),
      getWidgets = (\<lambda>s. Resolved ws),
      deleteWidget = (\<lambda>s i. Resolved ()),
      addWidget = (\<lambda>d. Resolved (Some \<lparr>w_id = ''widget_new'', w_name = wd_shortName d,
                                          w_class = TextAreaWidget\<rparr>)),
      upload = (\<lambda>u. Resolved (Some \<lparr>mediaId = ''media_1'',
                                       mediaUrl = ''https://i.redd.it/summary.png''\<rparr>)),
      UpdateImageWidget = (\<lambda>d. Resolved (Some \<lparr>w_id = ''widget_1'', w_name = wd_shortName d,
                                                  w_class = ImageWidget\<rparr>)),
      UpdateTextAreaWidget = (\<lambda>d. Resolved (Some \<lparr>w_id = ''widget_1'',
                                                     w_name = wd_shortName d,
                                                     w_class = TextAreaWidget\<rparr>))\<rparr>"

definition respond :: "nat \<Rightarrow> string option \<Rightarrow> string option \<Rightarrow> response" where
  "respond code ct lm =
     \<lparr>status = code, statusText = [], contentType = ct, lastModified = lm,
      body = Resolved ''No active storms.''\<rparr>"

definition textResponse :: response where
  "textResponse =
     respond 200 (Some ''text/plain; charset=utf-8'') (Some ''Tue, 03 Nov 2026 09:00:00 GMT'')"

definition imageResponse :: response where
  "imageResponse = respond 200 (Some ''image/png'') (Some ''Tue, 03 Nov 2026 09:00:00 GMT'')"

definition notModified :: response where
  "notModified = respond 304 None None"

definition textWidget :: widget where
  "textWidget = \<lparr>w_id = ''widget_1'', w_name = ''Tropical Summary'', w_class = TextAreaWidget\<rparr>"

definition imageWidget :: widget where
  "imageWidget = \<lparr>w_id = ''widget_1'', w_name = ''TROPICAL summary'', w_class = ImageWidget\<rparr>"

definition otherWidget :: widget where
  "otherWidget = \<lparr>w_id = ''widget_2'', w_name = ''Rules'', w_class = OtherWidget\<rparr>"

definition noContent :: response where
  "noContent = respond 204 None None"

definition serverError :: response where
  "serverError = respond 500 (Some ''text/html'') None"

definition upperCaseImage :: response where
  "upperCaseImage = respond 200 (Some ''IMAGE/PNG'') None"

definition htmlResponse :: response where
  "htmlResponse = respond 200 (Some ''Text/HTML'') (Some ''Tue, 03 Nov 2026 09:00:00 GMT'')"

definition noHeader :: response where
  "noHeader = respond 200 None (Some ''Tue, 03 Nov 2026 09:00:00 GMT'')"

text \<open>
  A platform whose setting and widget names carry accented letters: the setting is
  \<^verbatim>\<open>ETE\<close> with both E's capital and acute (code unit 201), and a widget may be
  named the same in small letters (code unit 233).
\<close>

definition capitalEte :: string where
  "capitalEte = [CHR 0xC9, CHR ''T'', CHR 0xC9]"

definition smallEte :: string where
  "smallEte = [CHR 0xE9, CHR ''t'', CHR 0xE9]"

definition accentPlatform :: "response \<Rightarrow> widget list \<Rightarrow> context" where
  "accentPlatform r ws =
     (samplePlatform r ws)\<lparr>settings := (\<lambda>k. Resolved (sampleSettings capitalEte k))\<rparr>"

definition smallEteText :: widget where
  "smallEteText = \<lparr>w_id = ''widget_3'', w_name = smallEte, w_class = TextAreaWidget\<rparr>"

definition capitalEteImage :: widget where
  "capitalEteImage = \<lparr>w_id = ''widget_4'', w_name = capitalEte, w_class = ImageWidget\<rparr>"

text \<open>
  The sample platform with an upload that yields no asset, with an update that fails, and
  with a store that rejects the write.
\<close>

definition storeRejects :: "context" where
  "storeRejects = (samplePlatform textResponse [textWidget])\<lparr>redisSet := (\<lambda>k v. Rejected)\<rparr>"

definition uploadFails :: "context" where
  "uploadFails = (samplePlatform imageResponse [otherWidget, textWidget])\<lparr>upload := (\<lambda>u. Resolved None)\<rparr>"

definition updateFails :: "context" where
  "updateFails =
     (samplePlatform textResponse [textWidget, otherWidget])\<lparr>UpdateTextAreaWidget := (\<lambda>d. Resolved None)\<rparr>"

text \<open>The data of the update that a text run issues, and the same data typed as a button.\<close>

definition textData :: UpdateWidgetData where
  "textData =
     buildWidgetData False (Some textWidget) ''hurricane'' ''tropical summary''
       (Some ''No active storms.'') None"

definition buttonData :: UpdateWidgetData where
  "buttonData = textData\<lparr>wd_type := ''button''\<rparr>"

section \<open>Properties\<close>

subsection \<open>Reading the run back\<close>

lemma called_simps [simp]:
  "calls (called c r) = c # calls r"
  "outcome (called c r) = outcome r"
  "redis_after (called c r) = redis_after r"
  by (simp_all add: called_def)

lemma stop_simps [simp]:
  "calls (stop ctx oc) = []"
  "outcome (stop ctx oc) = oc"
  "redis_after (stop ctx oc) = redis ctx"
  by (simp_all add: stop_def)

lemma toLowerCase_Nil [simp]: "toLowerCase s = [] \<longleftrightarrow> s = []"
  by (simp add: toLowerCase_def)

lemma fetched_callApi:
  assumes "fetchedIn ctx (calls (callApi ctx subreddit widgetName widgetDomain)) = Some r"
  shows "redisGet ctx SummaryLastModified = Resolved ()"
    and "fetch ctx (fetchUrl widgetDomain) (ifModifiedSince (redis ctx SummaryLastModified))
           = Resolved r"
    and "callApi ctx subreddit widgetName widgetDomain =
           called (RedisGet SummaryLastModified)
             (called (Fetch (fetchUrl widgetDomain)
                        (ifModifiedSince (redis ctx SummaryLastModified)))
                (apiResponseValidation ctx r subreddit widgetName (fetchUrl widgetDomain)))"
  using assms
  by (simp_all add: callApi_def Let_def split: reply.splits)

lemma fetched_onRun:
  assumes "fetched ctx = Some r"
  shows "\<exists>subreddit name widgetDomain.
           subredditName ctx = Some subreddit \<and> subreddit \<noteq> []
         \<and> settings ctx SummaryWidgetName = Resolved (Some name) \<and> lowerCase ctx name \<noteq> []
         \<and> settings ctx SummaryWidgetDomain = Resolved (Some widgetDomain) \<and> widgetDomain \<noteq> []
         \<and> fetch ctx (fetchUrl widgetDomain) (ifModifiedSince (redis ctx SummaryLastModified))
             = Resolved r
         \<and> onRun ctx =
             called (SettingsGet SummaryWidgetName)
               (called (SettingsGet SummaryWidgetDomain)
                  (called (RedisGet SummaryLastModified)
                     (called (Fetch (fetchUrl widgetDomain)
                                (ifModifiedSince (redis ctx SummaryLastModified)))
                        (apiResponseValidation ctx r subreddit (lowerCase ctx name)
                           (fetchUrl widgetDomain)))))"
proof -
  from assms obtain subreddit where s: "subredditName ctx = Some subreddit" "subreddit \<noteq> []"
    by (cases "subredditName ctx") (auto simp: fetched_def onRun_def split: if_splits)
  from assms s obtain name where n: "settings ctx SummaryWidgetName = Resolved (Some name)" "lowerCase ctx name \<noteq> []"
    by (cases "settings ctx SummaryWidgetName")
       (auto simp: fetched_def onRun_def Let_def split: if_splits option.splits)
  from assms s n obtain widgetDomain where
    d: "settings ctx SummaryWidgetDomain = Resolved (Some widgetDomain)" "widgetDomain \<noteq> []"
    by (cases "settings ctx SummaryWidgetDomain")
       (auto simp: fetched_def onRun_def Let_def split: if_splits option.splits)
  have run: "onRun ctx =
      called (SettingsGet SummaryWidgetName)
        (called (SettingsGet SummaryWidgetDomain)
           (callApi ctx subreddit (lowerCase ctx name) widgetDomain))"
    using s n d by (simp add: onRun_def Let_def)
  with assms have f: "fetchedIn ctx (calls (callApi ctx subreddit (lowerCase ctx name) widgetDomain)) = Some r"
    by (simp add: fetched_def)
  show ?thesis
    apply (rule exI [of _ subreddit])
    apply (rule exI [of _ name])
    apply (rule exI [of _ widgetDomain])
    using s n d fetched_callApi [OF f] by (simp add: run)
qed

lemma listed_apiResponseValidation:
  assumes "listedIn ctx (calls (apiResponseValidation ctx r subreddit widgetName u)) = Some ws"
  shows "\<exists>ct. status r = 200 \<and> contentType r = Some ct
         \<and> (startsWith (toLowerCase ct) ''text/plain'' \<or> startsWith (toLowerCase ct) ''image/'')
         \<and> getWidgets ctx subreddit = Resolved ws
         \<and> apiResponseValidation ctx r subreddit widgetName u =
             fetchExistingWidgets ctx r (startsWith (toLowerCase ct) ''image/'')
               subreddit widgetName u"
  using assms
  by (auto simp: apiResponseValidation_def fetchExistingWidgets_def
      split: if_splits option.splits reply.splits)

lemma listed_onRun:
  assumes "listed ctx = Some ws"
  shows "\<exists>subreddit name widgetDomain r ct.
           subredditName ctx = Some subreddit \<and> subreddit \<noteq> []
         \<and> settings ctx SummaryWidgetName = Resolved (Some name) \<and> lowerCase ctx name \<noteq> []
         \<and> settings ctx SummaryWidgetDomain = Resolved (Some widgetDomain) \<and> widgetDomain \<noteq> []
         \<and> fetched ctx = Some r \<and> status r = 200 \<and> contentType r = Some ct
         \<and> (startsWith (toLowerCase ct) ''text/plain'' \<or> startsWith (toLowerCase ct) ''image/'')
         \<and> getWidgets ctx subreddit = Resolved ws
         \<and> onRun ctx =
             called (SettingsGet SummaryWidgetName)
               (called (SettingsGet SummaryWidgetDomain)
                  (called (RedisGet SummaryLastModified)
                     (called (Fetch (fetchUrl widgetDomain)
                                (ifModifiedSince (redis ctx SummaryLastModified)))
                        (fetchExistingWidgets ctx r (startsWith (toLowerCase ct) ''image/'')
                           subreddit (lowerCase ctx name) (fetchUrl widgetDomain)))))"
proof -
  from assms obtain r where r: "fetched ctx = Some r"
    by (cases "fetched ctx")
       (auto simp: listed_def fetched_def onRun_def callApi_def Let_def
          split: option.splits if_splits reply.splits)
  from fetched_onRun [OF r] obtain subreddit name widgetDomain where
    p: "subredditName ctx = Some subreddit" "subreddit \<noteq> []"
       "settings ctx SummaryWidgetName = Resolved (Some name)" "lowerCase ctx name \<noteq> []"
       "settings ctx SummaryWidgetDomain = Resolved (Some widgetDomain)" "widgetDomain \<noteq> []"
    and run: "onRun ctx =
             called (SettingsGet SummaryWidgetName)
               (called (SettingsGet SummaryWidgetDomain)
                  (called (RedisGet SummaryLastModified)
                     (called (Fetch (fetchUrl widgetDomain)
                                (ifModifiedSince (redis ctx SummaryLastModified)))
                        (apiResponseValidation ctx r subreddit (lowerCase ctx name)
                           (fetchUrl widgetDomain)))))"
    by blast
  from assms have "listedIn ctx (calls (apiResponseValidation ctx r subreddit (lowerCase ctx name)
                           (fetchUrl widgetDomain))) = Some ws"
    by (simp add: listed_def run)
  from listed_apiResponseValidation [OF this] obtain ct where
    "status r = 200" "contentType r = Some ct"
    "startsWith (toLowerCase ct) ''text/plain'' \<or> startsWith (toLowerCase ct) ''image/''"
    "getWidgets ctx subreddit = Resolved ws"
    "apiResponseValidation ctx r subreddit (lowerCase ctx name) (fetchUrl widgetDomain) =
             fetchExistingWidgets ctx r (startsWith (toLowerCase ct) ''image/'')
               subreddit (lowerCase ctx name) (fetchUrl widgetDomain)"
    by blast
  then show ?thesis
    apply -
    apply (rule exI [of _ subreddit])
    apply (rule exI [of _ name])
    apply (rule exI [of _ widgetDomain])
    apply (rule exI [of _ r])
    apply (rule exI [of _ ct])
    using p r by (simp add: run)
qed


subsection \<open>The sections of the job, one by one\<close>

lemma isCreateOrUpdate_simps [simp]:
  "isCreateOrUpdate (UpdateWidget d)" "isCreateOrUpdate (AddWidget d)"
  "\<not> isCreateOrUpdate (SettingsGet k)" "\<not> isCreateOrUpdate (RedisGet k)"
  "\<not> isCreateOrUpdate (Fetch u h)" "\<not> isCreateOrUpdate (GetWidgets s)"
  "\<not> isCreateOrUpdate (DeleteWidget s i)" "\<not> isCreateOrUpdate (MediaUpload u)"
  "\<not> isCreateOrUpdate ReadText" "\<not> isCreateOrUpdate (RedisSet k v)"
  by (simp_all add: isCreateOrUpdate_def)

subsubsection \<open>Save Last Modified\<close>

lemma saveLastModified_outcome [simp]: "outcome (saveLastModified ctx r oc) = oc"
  by (simp add: saveLastModified_def split: option.splits reply.splits)

lemma saveLastModified_calls:
  "calls (saveLastModified ctx r oc) =
     (case lastModified r of
        None \<Rightarrow> []
      | Some v \<Rightarrow> if v = [] then [] else [RedisSet SummaryLastModified v])"
  by (simp add: saveLastModified_def split: option.splits reply.splits)

lemma saveLastModified_redis:
  "redis_after (saveLastModified ctx r oc) =
     (case lastModified r of
        None \<Rightarrow> redis ctx
      | Some v \<Rightarrow>
          if v \<noteq> [] \<and> redisSet ctx SummaryLastModified v = Resolved ()
          then (redis ctx)(SummaryLastModified \<mapsto> v)
          else redis ctx)"
  by (simp add: saveLastModified_def split: option.splits reply.splits)

lemma saveLastModified_counts [simp]:
  "filter isDelete (calls (saveLastModified ctx r oc)) = []"
  "filter isUpload (calls (saveLastModified ctx r oc)) = []"
  "filter isCreateOrUpdate (calls (saveLastModified ctx r oc)) = []"
  "filter isUpdate (calls (saveLastModified ctx r oc)) = []"
  "filter isCreate (calls (saveLastModified ctx r oc)) = []"
  "filter isList (calls (saveLastModified ctx r oc)) = []"
  "list_all knownType (calls (saveLastModified ctx r oc))"
  by (simp_all add: saveLastModified_calls split: option.splits)

lemma token_simps [simp]:
  "tokenWrites r (Skipped x) = []" "tokenWrites r (Crashed e) = []" "tokenWrites r Unchanged = []"
  "tokenAfter ctx r (Skipped x) = redis ctx" "tokenAfter ctx r (Crashed e) = redis ctx"
  "tokenAfter ctx r Unchanged = redis ctx"
  by (simp_all add: tokenWrites_def tokenAfter_def split: option.splits)

lemma saveLastModified_token:
  "oc = Updated \<or> oc = Created \<Longrightarrow>
     filter isTokenWrite (calls (saveLastModified ctx r oc)) = tokenWrites r oc"
  "oc = Updated \<or> oc = Created \<Longrightarrow>
     redis_after (saveLastModified ctx r oc) = tokenAfter ctx r oc"
  by (auto simp: saveLastModified_def tokenWrites_def tokenAfter_def
      split: option.splits reply.splits)

subsubsection \<open>Widget Add or Update\<close>

lemma updateWidget_unknown:
  "updateWidget ctx d = Inl UnknownWidgetType \<longleftrightarrow>
     wd_type d \<noteq> ''image'' \<and> wd_type d \<noteq> ''textarea''"
  by (simp add: updateWidget_def awaited_def split: reply.splits)

lemma addOrUpdate_token [simp]:
  "filter isTokenWrite (calls (addOrUpdate ctx r d)) = tokenWrites r (outcome (addOrUpdate ctx r d))"
  "redis_after (addOrUpdate ctx r d) = tokenAfter ctx r (outcome (addOrUpdate ctx r d))"
  by (simp_all add: addOrUpdate_def saveLastModified_token
      split: sum.splits option.splits reply.splits)

lemma addOrUpdate_counts [simp]:
  "filter isDelete (calls (addOrUpdate ctx r d)) = []"
  "filter isUpload (calls (addOrUpdate ctx r d)) = []"
  "filter isList (calls (addOrUpdate ctx r d)) = []"
  "length (filter isCreateOrUpdate (calls (addOrUpdate ctx r d))) \<le> Suc 0"
  by (simp_all add: addOrUpdate_def split: sum.splits option.splits reply.splits)

lemma addOrUpdate_outcome [simp]:
  "outcome (addOrUpdate ctx r d) \<noteq> Skipped HttpError"
  by (simp_all add: addOrUpdate_def split: sum.splits option.splits reply.splits)

lemma addOrUpdate_known:
  assumes "wd_type d = ''image'' \<or> wd_type d = ''textarea''"
  shows "list_all knownType (calls (addOrUpdate ctx r d))"
    and "outcome (addOrUpdate ctx r d) \<noteq> Crashed UnknownWidgetType"
  using assms
  by (auto simp: addOrUpdate_def updateWidget_def awaited_def
      split: sum.splits option.splits reply.splits)

lemma wd_type_buildWidgetData [simp]:
  "wd_type (buildWidgetData img w s n t m) = (if img then ''image'' else ''textarea'')"
  "wd_id (buildWidgetData img w s n t m) = map_option w_id w"
  by (simp_all add: buildWidgetData_def)

lemma widgetAddOrUpdate_token [simp]:
  "filter isTokenWrite (calls (widgetAddOrUpdate ctx r img w s n m)) =
     tokenWrites r (outcome (widgetAddOrUpdate ctx r img w s n m))"
  "redis_after (widgetAddOrUpdate ctx r img w s n m) =
     tokenAfter ctx r (outcome (widgetAddOrUpdate ctx r img w s n m))"
  by (simp_all add: widgetAddOrUpdate_def split: reply.splits)

lemma widgetAddOrUpdate_counts [simp]:
  "filter isDelete (calls (widgetAddOrUpdate ctx r img w s n m)) = []"
  "filter isUpload (calls (widgetAddOrUpdate ctx r img w s n m)) = []"
  "filter isList (calls (widgetAddOrUpdate ctx r img w s n m)) = []"
  "length (filter isCreateOrUpdate (calls (widgetAddOrUpdate ctx r img w s n m))) \<le> Suc 0"
  "outcome (widgetAddOrUpdate ctx r img w s n m) \<noteq> Skipped HttpError"
  "list_all knownType (calls (widgetAddOrUpdate ctx r img w s n m))"
  "outcome (widgetAddOrUpdate ctx r img w s n m) \<noteq> Crashed UnknownWidgetType"
  by (simp_all add: widgetAddOrUpdate_def addOrUpdate_known split: reply.splits)

subsubsection \<open>Image Upload\<close>

lemma imageUpload_token [simp]:
  "filter isTokenWrite (calls (imageUpload ctx r img w s n u)) =
     tokenWrites r (outcome (imageUpload ctx r img w s n u))"
  "redis_after (imageUpload ctx r img w s n u) =
     tokenAfter ctx r (outcome (imageUpload ctx r img w s n u))"
  by (simp_all add: imageUpload_def split: reply.splits option.splits)

lemma imageUpload_counts [simp]:
  "filter isDelete (calls (imageUpload ctx r img w s n u)) = []"
  "length (filter isUpload (calls (imageUpload ctx r img w s n u))) \<le> Suc 0"
  "filter isList (calls (imageUpload ctx r img w s n u)) = []"
  "length (filter isCreateOrUpdate (calls (imageUpload ctx r img w s n u))) \<le> Suc 0"
  "outcome (imageUpload ctx r img w s n u) \<noteq> Skipped HttpError"
  "list_all knownType (calls (imageUpload ctx r img w s n u))"
  "outcome (imageUpload ctx r img w s n u) \<noteq> Crashed UnknownWidgetType"
  by (simp_all add: imageUpload_def split: reply.splits option.splits)

subsubsection \<open>Check Existing Widget Type\<close>

lemma checkExistingWidgetType_token [simp]:
  "filter isTokenWrite (calls (checkExistingWidgetType ctx r img w s n u)) =
     tokenWrites r (outcome (checkExistingWidgetType ctx r img w s n u))"
  "redis_after (checkExistingWidgetType ctx r img w s n u) =
     tokenAfter ctx r (outcome (checkExistingWidgetType ctx r img w s n u))"
  by (simp_all add: checkExistingWidgetType_def Let_def split: reply.splits option.splits)

lemma checkExistingWidgetType_counts [simp]:
  "length (filter isDelete (calls (checkExistingWidgetType ctx r img w s n u))) \<le> Suc 0"
  "length (filter isUpload (calls (checkExistingWidgetType ctx r img w s n u))) \<le> Suc 0"
  "filter isList (calls (checkExistingWidgetType ctx r img w s n u)) = []"
  "length (filter isCreateOrUpdate (calls (checkExistingWidgetType ctx r img w s n u))) \<le> Suc 0"
  "outcome (checkExistingWidgetType ctx r img w s n u) \<noteq> Skipped HttpError"
  "list_all knownType (calls (checkExistingWidgetType ctx r img w s n u))"
  "outcome (checkExistingWidgetType ctx r img w s n u) \<noteq> Crashed UnknownWidgetType"
  by (simp_all add: checkExistingWidgetType_def Let_def split: reply.splits option.splits)

subsubsection \<open>Fetch Existing Widgets\<close>

lemma fetchExistingWidgets_token [simp]:
  "filter isTokenWrite (calls (fetchExistingWidgets ctx r img s n u)) =
     tokenWrites r (outcome (fetchExistingWidgets ctx r img s n u))"
  "redis_after (fetchExistingWidgets ctx r img s n u) =
     tokenAfter ctx r (outcome (fetchExistingWidgets ctx r img s n u))"
  by (simp_all add: fetchExistingWidgets_def Let_def split: reply.splits list.splits)

lemma fetchExistingWidgets_counts [simp]:
  "length (filter isDelete (calls (fetchExistingWidgets ctx r img s n u))) \<le> Suc 0"
  "length (filter isUpload (calls (fetchExistingWidgets ctx r img s n u))) \<le> Suc 0"
  "length (filter isCreateOrUpdate (calls (fetchExistingWidgets ctx r img s n u))) \<le> Suc 0"
  "outcome (fetchExistingWidgets ctx r img s n u) \<noteq> Skipped HttpError"
  "list_all knownType (calls (fetchExistingWidgets ctx r img s n u))"
  "outcome (fetchExistingWidgets ctx r img s n u) \<noteq> Crashed UnknownWidgetType"
  by (simp_all add: fetchExistingWidgets_def Let_def split: reply.splits list.splits)

subsubsection \<open>API Response Validation\<close>

lemma apiResponseValidation_token [simp]:
  "filter isTokenWrite (calls (apiResponseValidation ctx r s n u)) =
     tokenWrites r (outcome (apiResponseValidation ctx r s n u))"
  "redis_after (apiResponseValidation ctx r s n u) =
     tokenAfter ctx r (outcome (apiResponseValidation ctx r s n u))"
  by (simp_all add: apiResponseValidation_def split: option.splits)

lemma apiResponseValidation_counts [simp]:
  "length (filter isDelete (calls (apiResponseValidation ctx r s n u))) \<le> Suc 0"
  "length (filter isUpload (calls (apiResponseValidation ctx r s n u))) \<le> Suc 0"
  "length (filter isCreateOrUpdate (calls (apiResponseValidation ctx r s n u))) \<le> Suc 0"
  "list_all knownType (calls (apiResponseValidation ctx r s n u))"
  "outcome (apiResponseValidation ctx r s n u) \<noteq> Crashed UnknownWidgetType"
  by (simp_all add: apiResponseValidation_def split: option.splits)

subsubsection \<open>The whole job\<close>

lemma sideEffects_simps [simp]:
  "sideEffects [] = []"
  "sideEffects (SettingsGet k # cs) = sideEffects cs"
  "sideEffects (RedisGet k # cs) = sideEffects cs"
  "sideEffects (Fetch u h # cs) = sideEffects cs"
  by (simp_all add: sideEffects_def isMutation_def)

lemma mutations_simps [simp]:
  "mutations [] = []"
  "mutations (SettingsGet k # cs) = mutations cs"
  "mutations (RedisGet k # cs) = mutations cs"
  "mutations (Fetch u h # cs) = mutations cs"
  "mutations (GetWidgets s # cs) = mutations cs"
  by (simp_all add: mutations_def isMutation_def)

lemma not_fetched:
  assumes "fetched ctx = None"
  shows "filter isTokenWrite (calls (onRun ctx)) = []"
    and "redis_after (onRun ctx) = redis ctx"
    and "outcome (onRun ctx) \<noteq> Updated" and "outcome (onRun ctx) \<noteq> Created"
    and "outcome (onRun ctx) \<noteq> Skipped HttpError"
  using assms
  by (auto simp: fetched_def onRun_def callApi_def Let_def
      split: option.splits if_splits reply.splits)

lemma onRun_counts:
  "length (filter isDelete (calls (onRun ctx))) \<le> Suc 0"
  "length (filter isUpload (calls (onRun ctx))) \<le> Suc 0"
  "length (filter isCreateOrUpdate (calls (onRun ctx))) \<le> Suc 0"
  "length (filter isTokenWrite (calls (onRun ctx))) \<le> Suc 0"
  "list_all knownType (calls (onRun ctx))"
  "outcome (onRun ctx) \<noteq> Crashed UnknownWidgetType"
  by (simp_all add: onRun_def callApi_def Let_def tokenWrites_def
      split: option.splits reply.splits)

lemma fetched_run:
  assumes "fetched ctx = Some r"
  obtains subreddit name widgetDomain where
    "settings ctx SummaryWidgetName = Resolved (Some name)"
    "calls (onRun ctx) =
       [SettingsGet SummaryWidgetName, SettingsGet SummaryWidgetDomain,
        RedisGet SummaryLastModified,
        Fetch (fetchUrl widgetDomain) (ifModifiedSince (redis ctx SummaryLastModified))]
       @ calls (apiResponseValidation ctx r subreddit (lowerCase ctx name) (fetchUrl widgetDomain))"
    "outcome (onRun ctx) =
       outcome (apiResponseValidation ctx r subreddit (lowerCase ctx name) (fetchUrl widgetDomain))"
    "redis_after (onRun ctx) =
       redis_after (apiResponseValidation ctx r subreddit (lowerCase ctx name) (fetchUrl widgetDomain))"
proof -
  from fetched_onRun [OF assms] obtain subreddit name widgetDomain where
    "settings ctx SummaryWidgetName = Resolved (Some name)"
    "onRun ctx =
             called (SettingsGet SummaryWidgetName)
               (called (SettingsGet SummaryWidgetDomain)
                  (called (RedisGet SummaryLastModified)
                     (called (Fetch (fetchUrl widgetDomain)
                                (ifModifiedSince (redis ctx SummaryLastModified)))
                        (apiResponseValidation ctx r subreddit (lowerCase ctx name)
                           (fetchUrl widgetDomain)))))"
    by blast
  then show thesis
    by (intro that [of name widgetDomain subreddit]) simp_all
qed

lemma toLowerChar_idem [simp]: "toLowerChar (toLowerChar c) = toLowerChar c"
proof -
  let ?n = "of_char c :: nat"
  have "of_char (char_of (?n + 32)) = (?n + 32) mod 256"
    by (simp only: of_char_of)
  moreover have "?n \<le> 222 \<Longrightarrow> (?n + 32) mod 256 = ?n + 32"
    by simp
  ultimately show ?thesis
    by (auto simp: toLowerChar_def Let_def)
qed

lemma toLowerCase_idem [simp]: "toLowerCase (toLowerCase s) = toLowerCase s"
  by (simp add: toLowerCase_def)

subsubsection \<open>What the sections read of the response and of the platform\<close>

lemma stop_fetch [simp]: "stop (ctx\<lparr>fetch := f\<rparr>) oc = stop ctx oc"
  by (simp add: stop_def)

lemma nameMatchWidgets_fetch [simp]:
  "nameMatchWidgets (ctx\<lparr>fetch := f\<rparr>) ws n = nameMatchWidgets ctx ws n"
  by (simp add: nameMatchWidgets_def)

lemma updateWidget_fetch [simp]: "updateWidget (ctx\<lparr>fetch := f\<rparr>) d = updateWidget ctx d"
  by (simp add: updateWidget_def)

lemma saveLastModified_fetch [simp]:
  "saveLastModified (ctx\<lparr>fetch := f\<rparr>) r oc = saveLastModified ctx r oc"
  "saveLastModified ctx (r\<lparr>contentType := y\<rparr>) oc = saveLastModified ctx r oc"
  by (simp_all add: saveLastModified_def split: option.splits reply.splits)

lemma addOrUpdate_fetch [simp]:
  "addOrUpdate (ctx\<lparr>fetch := f\<rparr>) r d = addOrUpdate ctx r d"
  "addOrUpdate ctx (r\<lparr>contentType := y\<rparr>) d = addOrUpdate ctx r d"
  by (simp_all add: addOrUpdate_def split: sum.splits option.splits reply.splits)

lemma widgetAddOrUpdate_fetch [simp]:
  "widgetAddOrUpdate (ctx\<lparr>fetch := f\<rparr>) r img w s n m = widgetAddOrUpdate ctx r img w s n m"
  "widgetAddOrUpdate ctx (r\<lparr>contentType := y\<rparr>) img w s n m = widgetAddOrUpdate ctx r img w s n m"
  by (simp_all add: widgetAddOrUpdate_def split: reply.splits)

lemma imageUpload_fetch [simp]:
  "imageUpload (ctx\<lparr>fetch := f\<rparr>) r img w s n u = imageUpload ctx r img w s n u"
  "imageUpload ctx (r\<lparr>contentType := y\<rparr>) img w s n u = imageUpload ctx r img w s n u"
  by (simp_all add: imageUpload_def split: reply.splits option.splits)

lemma checkExistingWidgetType_fetch [simp]:
  "checkExistingWidgetType (ctx\<lparr>fetch := f\<rparr>) r img w s n u
     = checkExistingWidgetType ctx r img w s n u"
  "checkExistingWidgetType ctx (r\<lparr>contentType := y\<rparr>) img w s n u
     = checkExistingWidgetType ctx r img w s n u"
  by (simp_all add: checkExistingWidgetType_def Let_def split: reply.splits option.splits)

lemma fetchExistingWidgets_fetch [simp]:
  "fetchExistingWidgets (ctx\<lparr>fetch := f\<rparr>) r img s n u = fetchExistingWidgets ctx r img s n u"
  "fetchExistingWidgets ctx (r\<lparr>contentType := y\<rparr>) img s n u
     = fetchExistingWidgets ctx r img s n u"
  by (simp_all add: fetchExistingWidgets_def Let_def split: reply.splits list.splits)

lemma apiResponseValidation_fetch [simp]:
  "apiResponseValidation (ctx\<lparr>fetch := f\<rparr>) r s n u = apiResponseValidation ctx r s n u"
  by (simp add: apiResponseValidation_def split: option.splits)

lemma apiResponseValidation_unrecognised:
  assumes "\<not> startsWith (toLowerCase ct) ''text/plain''"
    and "\<not> startsWith (toLowerCase ct) ''image/''"
  shows "apiResponseValidation ctx (r\<lparr>contentType := Some ct\<rparr>) s n u
           = apiResponseValidation ctx (r\<lparr>contentType := None\<rparr>) s n u"
  using assms by (simp add: apiResponseValidation_def split: option.splits)

lemma apiResponseValidation_lower:
  "apiResponseValidation ctx (r\<lparr>contentType := Some (toLowerCase ct)\<rparr>) s n u
     = apiResponseValidation ctx (r\<lparr>contentType := Some ct\<rparr>) s n u"
  by (simp add: apiResponseValidation_def split: option.splits)

lemma callApi_declaring:
  "callApi (declaring x ctx) s n d =
     called (RedisGet SummaryLastModified)
       (case redisGet ctx SummaryLastModified of
          Rejected \<Rightarrow> stop ctx (Crashed CollaboratorError)
        | Resolved u \<Rightarrow>
            called (Fetch (fetchUrl d) (ifModifiedSince (redis ctx SummaryLastModified)))
              (case fetch ctx (fetchUrl d) (ifModifiedSince (redis ctx SummaryLastModified)) of
                 Rejected \<Rightarrow> stop ctx (Crashed CollaboratorError)
               | Resolved r \<Rightarrow>
                   apiResponseValidation ctx (r\<lparr>contentType := x\<rparr>) s n (fetchUrl d)))"
  by (cases "fetch ctx (fetchUrl d) (ifModifiedSince (redis ctx SummaryLastModified))")
     (simp_all add: callApi_def declaring_def Let_def split: reply.splits)

lemma onRun_declaring:
  assumes "\<And>r s n u. apiResponseValidation ctx (r\<lparr>contentType := x\<rparr>) s n u
                     = apiResponseValidation ctx (r\<lparr>contentType := y\<rparr>) s n u"
  shows "onRun (declaring x ctx) = onRun (declaring y ctx)"
proof -
  have "callApi (declaring x ctx) s n d = callApi (declaring y ctx) s n d" for s n d
    by (simp add: callApi_declaring assms split: reply.splits)
  moreover have "subredditName (declaring z ctx) = subredditName ctx"
    "settings (declaring z ctx) = settings ctx" "lowerCase (declaring z ctx) = lowerCase ctx"
    for z
    by (simp_all add: declaring_def)
  moreover have "stop (declaring z ctx) oc = stop ctx oc" for z oc
    by (simp add: declaring_def)
  ultimately show ?thesis
    by (simp add: onRun_def Let_def split: option.splits reply.splits)
qed

lemma listed_run:
  assumes "listed ctx = Some ws"
  obtains subreddit name widgetDomain r ct where
    "subredditName ctx = Some subreddit"
    "settings ctx SummaryWidgetName = Resolved (Some name)"
    "settings ctx SummaryWidgetDomain = Resolved (Some widgetDomain)"
    "fetched ctx = Some r" "contentType r = Some ct"
    "startsWith (toLowerCase ct) ''text/plain'' \<or> startsWith (toLowerCase ct) ''image/''"
    "getWidgets ctx subreddit = Resolved ws"
    "calls (onRun ctx) =
       [SettingsGet SummaryWidgetName, SettingsGet SummaryWidgetDomain,
        RedisGet SummaryLastModified,
        Fetch (fetchUrl widgetDomain) (ifModifiedSince (redis ctx SummaryLastModified))]
       @ calls (fetchExistingWidgets ctx r (startsWith (toLowerCase ct) ''image/'')
                  subreddit (lowerCase ctx name) (fetchUrl widgetDomain))"
    "outcome (onRun ctx) =
       outcome (fetchExistingWidgets ctx r (startsWith (toLowerCase ct) ''image/'')
                  subreddit (lowerCase ctx name) (fetchUrl widgetDomain))"
proof -
  from listed_onRun [OF assms] obtain subreddit name widgetDomain r ct where
    "subredditName ctx = Some subreddit"
    "settings ctx SummaryWidgetName = Resolved (Some name)"
    "settings ctx SummaryWidgetDomain = Resolved (Some widgetDomain)"
    "fetched ctx = Some r" "contentType r = Some ct"
    "startsWith (toLowerCase ct) ''text/plain'' \<or> startsWith (toLowerCase ct) ''image/''"
    "getWidgets ctx subreddit = Resolved ws"
    "onRun ctx =
             called (SettingsGet SummaryWidgetName)
               (called (SettingsGet SummaryWidgetDomain)
                  (called (RedisGet SummaryLastModified)
                     (called (Fetch (fetchUrl widgetDomain)
                                (ifModifiedSince (redis ctx SummaryLastModified)))
                        (fetchExistingWidgets ctx r (startsWith (toLowerCase ct) ''image/'')
                           subreddit (lowerCase ctx name) (fetchUrl widgetDomain)))))"
    by blast
  then show thesis
    by (intro that [of subreddit name widgetDomain r ct]) simp_all
qed

lemma text_is_not_image:
  "startsWith t ''text/plain'' \<Longrightarrow> \<not> startsWith t ''image/''"
  by (auto simp: startsWith_def prefix_def)

lemma fetchExistingWidgets_single:
  assumes "getWidgets ctx s = Resolved ws" and "nameMatchWidgets ctx ws n = [w]"
    and "w_class w = TextAreaWidget \<or> w_class w = ImageWidget"
  shows "fetchExistingWidgets ctx r img s n u =
           called (GetWidgets s) (checkExistingWidgetType ctx r img (Some w) s n u)"
  using assms by (auto simp: fetchExistingWidgets_def)

lemma checkExistingWidgetType_differs:
  assumes "(w_class w = ImageWidget) \<noteq> img"
  shows "checkExistingWidgetType ctx r img (Some w) s n u =
           called (DeleteWidget s (w_id w))
             (case deleteWidget ctx s (w_id w) of
                Rejected \<Rightarrow> stop ctx (Crashed CollaboratorError)
              | Resolved x \<Rightarrow> imageUpload ctx r img None s n u)"
  using assms by (simp add: checkExistingWidgetType_def)

lemma checkExistingWidgetType_same:
  assumes "(w_class w = ImageWidget) = img"
  shows "checkExistingWidgetType ctx r img (Some w) s n u = imageUpload ctx r img (Some w) s n u"
  using assms by (simp add: checkExistingWidgetType_def)

text \<open>The create path: no widget survived, so the data carries no id.\<close>

lemma addOrUpdate_create:
  assumes "wd_id d = None"
  shows "calls (addOrUpdate ctx r d) =
           AddWidget d #
             (case addWidget ctx d of
                Resolved (Some a) \<Rightarrow> calls (saveLastModified ctx r Created)
              | _ \<Rightarrow> [])"
  using assms by (simp add: addOrUpdate_def split: reply.splits option.splits)

lemma create_path:
  "filter isUpdate (calls (imageUpload ctx r img None s n u)) = []"
  "AddWidget d \<in> set (calls (imageUpload ctx r img None s n u)) \<Longrightarrow> wd_id d = None"
  "(if img then \<exists>m. upload ctx u = Resolved (Some m) else \<exists>t. body r = Resolved t)
     \<Longrightarrow> \<exists>d. AddWidget d \<in> set (calls (imageUpload ctx r img None s n u)) \<and> wd_id d = None"
  by (auto simp: imageUpload_def widgetAddOrUpdate_def addOrUpdate_create saveLastModified_calls
      split: reply.splits option.splits if_splits)

text \<open>The update path: the text widget survived, so the data carries its id.\<close>

lemma addOrUpdate_update:
  assumes "wd_id d = Some i" and "i \<noteq> []"
  shows "calls (addOrUpdate ctx r d) =
           UpdateWidget d #
             (case updateWidget ctx d of
                Inr (Some a) \<Rightarrow> calls (saveLastModified ctx r Updated)
              | _ \<Rightarrow> [])"
    and "outcome (addOrUpdate ctx r d) =
           (case updateWidget ctx d of
              Inl e \<Rightarrow> Crashed e
            | Inr None \<Rightarrow> Skipped UpdateFailed
            | Inr (Some a) \<Rightarrow> Updated)"
  using assms by (simp_all add: addOrUpdate_def split: sum.splits option.splits)

lemma update_path:
  assumes "w_id w \<noteq> []"
  shows "calls (imageUpload ctx r False (Some w) s n u) =
           ReadText #
             (case body r of
                Rejected \<Rightarrow> []
              | Resolved t \<Rightarrow>
                  calls (addOrUpdate ctx r (buildWidgetData False (Some w) s n (Some t) None)))"
    and "outcome (imageUpload ctx r False (Some w) s n u) =
           (case body r of
              Rejected \<Rightarrow> Crashed CollaboratorError
            | Resolved t \<Rightarrow>
                outcome (addOrUpdate ctx r (buildWidgetData False (Some w) s n (Some t) None)))"
  by (simp_all add: imageUpload_def widgetAddOrUpdate_def split: reply.splits)

section \<open>The claims\<close>

text \<open>
  C1, as the code has it. A write of the cache token is issued in a run exactly when the
  run ends as \<open>Updated\<close> or \<open>Created\<close> and the response to its fetch carried a
  last-modified indicator (a non-empty \<^verbatim>\<open>Last-Modified\<close> header). That one write
  carries the indicator, unchanged, under the last-modified key. When the store accepts
  it, the store after the run holds the indicator under that key and is otherwise as
  before; when the store rejects it, and in every run without such a write (a skip, a
  failed update or create, a caught exception, a response without the indicator), the
  store after the run is the store before it.
\<close>

theorem token_write_follows_success:
  "(filter isTokenWrite (calls (onRun ctx)) \<noteq> [] \<longleftrightarrow>
      (outcome (onRun ctx) = Updated \<or> outcome (onRun ctx) = Created)
      \<and> (\<exists>r. fetched ctx = Some r \<and> truthy (lastModified r)))
   \<and> (\<forall>r v. fetched ctx = Some r \<and> lastModified r = Some v \<and> v \<noteq> []
            \<and> (outcome (onRun ctx) = Updated \<or> outcome (onRun ctx) = Created)
        \<longrightarrow> filter isTokenWrite (calls (onRun ctx)) = [RedisSet SummaryLastModified v]
            \<and> (redisSet ctx SummaryLastModified v = Resolved ()
                \<longrightarrow> redis_after (onRun ctx) = (redis ctx)(SummaryLastModified \<mapsto> v))
            \<and> (redisSet ctx SummaryLastModified v = Rejected
                \<longrightarrow> redis_after (onRun ctx) = redis ctx))
   \<and> (filter isTokenWrite (calls (onRun ctx)) = [] \<longrightarrow> redis_after (onRun ctx) = redis ctx)"
proof (cases "fetched ctx")
  case None
  from not_fetched [OF None] None show ?thesis by simp
next
  case (Some r)
  from fetched_run [OF Some] obtain subreddit name widgetDomain where
    c: "calls (onRun ctx) =
       [SettingsGet SummaryWidgetName, SettingsGet SummaryWidgetDomain,
        RedisGet SummaryLastModified,
        Fetch (fetchUrl widgetDomain) (ifModifiedSince (redis ctx SummaryLastModified))]
       @ calls (apiResponseValidation ctx r subreddit (lowerCase ctx name) (fetchUrl widgetDomain))"
    and o: "outcome (onRun ctx) =
       outcome (apiResponseValidation ctx r subreddit (lowerCase ctx name) (fetchUrl widgetDomain))"
    and s: "redis_after (onRun ctx) =
       redis_after (apiResponseValidation ctx r subreddit (lowerCase ctx name) (fetchUrl widgetDomain))"
    by blast
  have w: "filter isTokenWrite (calls (onRun ctx)) = tokenWrites r (outcome (onRun ctx))"
    by (simp add: c o)
  have a: "redis_after (onRun ctx) = tokenAfter ctx r (outcome (onRun ctx))"
    by (simp add: s o)
  show ?thesis
    unfolding w a using Some
    by (cases "lastModified r") (auto simp: tokenWrites_def tokenAfter_def)
qed

theorem token_write_follows_success_witness:
  "fetched (samplePlatform textResponse [textWidget]) = Some textResponse
   \<and> lastModified textResponse = Some ''Tue, 03 Nov 2026 09:00:00 GMT''
   \<and> outcome (onRun (samplePlatform textResponse [textWidget])) = Updated
   \<and> redisSet (samplePlatform textResponse [textWidget]) SummaryLastModified
       ''Tue, 03 Nov 2026 09:00:00 GMT'' = Resolved ()
   \<and> filter isTokenWrite (calls (onRun (samplePlatform textResponse [textWidget])))
       = [RedisSet SummaryLastModified ''Tue, 03 Nov 2026 09:00:00 GMT'']
   \<and> redis_after (onRun (samplePlatform textResponse [textWidget]))
       = (redis (samplePlatform textResponse [textWidget]))
           (SummaryLastModified \<mapsto> ''Tue, 03 Nov 2026 09:00:00 GMT'')
   \<and> fetched storeRejects = Some textResponse
   \<and> outcome (onRun storeRejects) = Updated
   \<and> redisSet storeRejects SummaryLastModified ''Tue, 03 Nov 2026 09:00:00 GMT'' = Rejected
   \<and> redis_after (onRun storeRejects) = redis storeRejects
   \<and> filter isTokenWrite (calls (onRun updateFails)) = []
   \<and> redis_after (onRun updateFails) = redis updateFails"
proof -
  have f: "fetched (samplePlatform textResponse [textWidget]) = Some textResponse"
    by code_simp
  have l: "lastModified textResponse = Some ''Tue, 03 Nov 2026 09:00:00 GMT''"
    by code_simp
  have u: "outcome (onRun (samplePlatform textResponse [textWidget])) = Updated"
    by code_simp
  have a: "redisSet (samplePlatform textResponse [textWidget]) SummaryLastModified
             ''Tue, 03 Nov 2026 09:00:00 GMT'' = Resolved ()"
    by code_simp
  have g: "fetched storeRejects = Some textResponse"
    by code_simp
  have v: "outcome (onRun storeRejects) = Updated"
    by code_simp
  have j: "redisSet storeRejects SummaryLastModified ''Tue, 03 Nov 2026 09:00:00 GMT''
             = Rejected"
    by code_simp
  have n: "filter isTokenWrite (calls (onRun updateFails)) = []"
    by code_simp
  from token_write_follows_success [of "samplePlatform textResponse [textWidget]"]
       token_write_follows_success [of storeRejects]
       token_write_follows_success [of updateFails] f l u a g v j n
  show ?thesis by simp
qed

text \<open>
  C1, where the claim fails: the update succeeds and the response carries the indicator,
  but the store rejects the write. The run ends as \<open>Updated\<close> and the token of the
  earlier run is still the one stored.
\<close>

theorem token_not_persisted_counterexample:
  "fetched storeRejects = Some textResponse
   \<and> lastModified textResponse = Some ''Tue, 03 Nov 2026 09:00:00 GMT''
   \<and> outcome (onRun storeRejects) = Updated
   \<and> redis_after (onRun storeRejects) SummaryLastModified
       = Some ''Mon, 02 Nov 2026 08:00:00 GMT''"
  by code_simp

text \<open>
  C2. In every run whose conditional fetch responds with HTTP status 304, the job ends
  as \<open>Unchanged\<close> and the fetch is its last call: it lists no widgets, deletes, creates
  and updates none, uploads nothing and writes no token, so the key-value store after
  the run is the store before it.
\<close>

theorem not_modified_is_unchanged:
  assumes "fetched ctx = Some r" and "status r = 304"
  shows "outcome (onRun ctx) = Unchanged
       \<and> sideEffects (calls (onRun ctx)) = []
       \<and> (\<exists>before u h. calls (onRun ctx) = before @ [Fetch u h])
       \<and> redis_after (onRun ctx) = redis ctx"
proof -
  from fetched_onRun [OF assms(1)] obtain subreddit name widgetDomain where
    run: "onRun ctx =
             called (SettingsGet SummaryWidgetName)
               (called (SettingsGet SummaryWidgetDomain)
                  (called (RedisGet SummaryLastModified)
                     (called (Fetch (fetchUrl widgetDomain)
                                (ifModifiedSince (redis ctx SummaryLastModified)))
                        (apiResponseValidation ctx r subreddit (lowerCase ctx name)
                           (fetchUrl widgetDomain)))))"
    by blast
  have "apiResponseValidation ctx r subreddit (lowerCase ctx name) (fetchUrl widgetDomain)
          = stop ctx Unchanged"
    using assms(2) by (simp add: apiResponseValidation_def)
  with run show ?thesis by simp
qed

theorem not_modified_is_unchanged_witness:
  "fetched (samplePlatform notModified [textWidget]) = Some notModified
   \<and> status notModified = 304
   \<and> outcome (onRun (samplePlatform notModified [textWidget])) = Unchanged
   \<and> sideEffects (calls (onRun (samplePlatform notModified [textWidget]))) = []
   \<and> redis_after (onRun (samplePlatform notModified [textWidget]))
       = redis (samplePlatform notModified [textWidget])"
proof -
  have h: "fetched (samplePlatform notModified [textWidget]) = Some notModified"
    by code_simp
  have s: "status notModified = 304"
    by code_simp
  from not_modified_is_unchanged [OF h s] h s show ?thesis by simp
qed

text \<open>
  C3, as the code has it. In every run whose listing holds exactly one widget matching the
  configured name, of the other variant than the content just classified (an image widget
  and text content, or a text widget and image content): the delete of that widget is the
  first change the run makes, no update is ever invoked, and a create, when one is invoked,
  comes after the delete and carries no \<^verbatim>\<open>id\<close>. The create is invoked whenever
  the delete resolves and the content is at hand (the text body was read, or the upload
  yielded an asset). When the delete resolves and the upload yields no asset, the run ends
  as the upload-failed skip and nothing is created. Names match when the runtime's
  \<^verbatim>\<open>toLowerCase\<close> makes them equal.
\<close>

theorem variant_change_deletes_then_creates:
  assumes "listed ctx = Some subWidgets"
    and "subredditName ctx = Some subreddit"
    and "settings ctx SummaryWidgetName = Resolved (Some name)"
    and "settings ctx SummaryWidgetDomain = Resolved (Some widgetDomain)"
    and "filter (\<lambda>w. lowerCase ctx (w_name w) = lowerCase ctx name) subWidgets = [w]"
    and "fetched ctx = Some r" and "contentType r = Some ct"
    and "(w_class w = ImageWidget \<and> \<not> startsWith (toLowerCase ct) ''image/'')
         \<or> (w_class w = TextAreaWidget \<and> startsWith (toLowerCase ct) ''image/'')"
  shows "\<exists>before after.
           calls (onRun ctx) = before @ DeleteWidget subreddit (w_id w) # after
         \<and> mutations before = []
         \<and> filter isDelete after = []
         \<and> filter isUpdate after = []
         \<and> (\<forall>d. AddWidget d \<in> set after \<longrightarrow> wd_id d = None)
         \<and> (deleteWidget ctx subreddit (w_id w) = Resolved ()
             \<and> (if startsWith (toLowerCase ct) ''image/''
                 then \<exists>m. upload ctx (fetchUrl widgetDomain) = Resolved (Some m)
                 else \<exists>t. body r = Resolved t)
            \<longrightarrow> (\<exists>d. AddWidget d \<in> set after \<and> wd_id d = None))
         \<and> (deleteWidget ctx subreddit (w_id w) = Resolved ()
             \<and> startsWith (toLowerCase ct) ''image/''
             \<and> upload ctx (fetchUrl widgetDomain) = Resolved None
            \<longrightarrow> outcome (onRun ctx) = Skipped UploadFailed \<and> filter isCreate after = [])"
proof -
  let ?img = "startsWith (toLowerCase ct) ''image/''"
  let ?u = "fetchUrl widgetDomain"
  let ?n = "lowerCase ctx name"
  let ?rest = "case deleteWidget ctx subreddit (w_id w) of
                 Rejected \<Rightarrow> stop ctx (Crashed CollaboratorError)
               | Resolved x \<Rightarrow> imageUpload ctx r ?img None subreddit ?n ?u"
  let ?before = "[SettingsGet SummaryWidgetName, SettingsGet SummaryWidgetDomain,
        RedisGet SummaryLastModified,
        Fetch ?u (ifModifiedSince (redis ctx SummaryLastModified)), GetWidgets subreddit]"
  obtain subreddit' name' widgetDomain' r' ct' where
    l: "subredditName ctx = Some subreddit'"
       "settings ctx SummaryWidgetName = Resolved (Some name')"
       "settings ctx SummaryWidgetDomain = Resolved (Some widgetDomain')"
       "fetched ctx = Some r'" "contentType r' = Some ct'"
       "getWidgets ctx subreddit' = Resolved subWidgets"
       "calls (onRun ctx) =
          [SettingsGet SummaryWidgetName, SettingsGet SummaryWidgetDomain,
           RedisGet SummaryLastModified,
           Fetch (fetchUrl widgetDomain') (ifModifiedSince (redis ctx SummaryLastModified))]
          @ calls (fetchExistingWidgets ctx r' (startsWith (toLowerCase ct') ''image/'')
                     subreddit' (lowerCase ctx name') (fetchUrl widgetDomain'))"
       "outcome (onRun ctx) =
          outcome (fetchExistingWidgets ctx r' (startsWith (toLowerCase ct') ''image/'')
                     subreddit' (lowerCase ctx name') (fetchUrl widgetDomain'))"
    by (rule listed_run [OF assms(1)])
  from l assms(2-4,6,7) have e: "subreddit' = subreddit" "name' = name"
    "widgetDomain' = widgetDomain" "r' = r" "ct' = ct"
    by simp_all
  have g: "getWidgets ctx subreddit = Resolved subWidgets"
    and c: "calls (onRun ctx) =
       [SettingsGet SummaryWidgetName, SettingsGet SummaryWidgetDomain,
        RedisGet SummaryLastModified,
        Fetch ?u (ifModifiedSince (redis ctx SummaryLastModified))]
       @ calls (fetchExistingWidgets ctx r ?img subreddit ?n ?u)"
    and o: "outcome (onRun ctx) = outcome (fetchExistingWidgets ctx r ?img subreddit ?n ?u)"
    using l(6,7,8) unfolding e by simp_all
  have m: "nameMatchWidgets ctx subWidgets ?n = [w]"
    using assms(5) by (simp add: nameMatchWidgets_def)
  have k: "w_class w = TextAreaWidget \<or> w_class w = ImageWidget"
    and d: "(w_class w = ImageWidget) \<noteq> ?img"
    using assms(8) by auto
  have x: "fetchExistingWidgets ctx r ?img subreddit ?n ?u =
          called (GetWidgets subreddit) (called (DeleteWidget subreddit (w_id w)) ?rest)"
    by (simp add: fetchExistingWidgets_single [OF g m k] checkExistingWidgetType_differs [OF d])
  with c have split: "calls (onRun ctx) = ?before @ DeleteWidget subreddit (w_id w) # calls ?rest"
    by simp
  have y: "outcome (onRun ctx) = outcome ?rest"
    using o x by simp
  have "mutations ?before = []"
    by simp
  moreover have "filter isDelete (calls ?rest) = []" "filter isUpdate (calls ?rest) = []"
    by (simp_all add: create_path split: reply.splits)
  moreover have "\<forall>d. AddWidget d \<in> set (calls ?rest) \<longrightarrow> wd_id d = None"
    by (auto dest: create_path(2) split: reply.splits)
  moreover have "deleteWidget ctx subreddit (w_id w) = Resolved ()
             \<and> (if ?img then \<exists>m. upload ctx ?u = Resolved (Some m) else \<exists>t. body r = Resolved t)
            \<longrightarrow> (\<exists>d. AddWidget d \<in> set (calls ?rest) \<and> wd_id d = None)"
    using create_path(3) [of ?img ctx ?u r subreddit ?n] by auto
  moreover have "deleteWidget ctx subreddit (w_id w) = Resolved ()
             \<and> ?img \<and> upload ctx ?u = Resolved None
            \<longrightarrow> outcome (onRun ctx) = Skipped UploadFailed \<and> filter isCreate (calls ?rest) = []"
    by (simp add: y imageUpload_def)
  ultimately show ?thesis
    using split by (intro exI [of _ ?before] exI [of _ "calls ?rest"]) simp
qed


theorem variant_change_deletes_then_creates_witness:
  "listed (samplePlatform textResponse [imageWidget]) = Some [imageWidget]
   \<and> filter (\<lambda>w. lowerCase (samplePlatform textResponse [imageWidget]) (w_name w)
                   = lowerCase (samplePlatform textResponse [imageWidget]) ''Tropical Summary'')
        [imageWidget] = [imageWidget]
   \<and> fetched (samplePlatform textResponse [imageWidget]) = Some textResponse
   \<and> w_class imageWidget = ImageWidget
   \<and> \<not> startsWith (toLowerCase ''text/plain; charset=utf-8'') ''image/''
   \<and> deleteWidget (samplePlatform textResponse [imageWidget]) ''hurricane'' (w_id imageWidget)
       = Resolved ()
   \<and> body textResponse = Resolved ''No active storms.''
   \<and> (\<exists>before after.
         calls (onRun (samplePlatform textResponse [imageWidget]))
           = before @ DeleteWidget ''hurricane'' (w_id imageWidget) # after
         \<and> mutations before = []
         \<and> filter isUpdate after = []
         \<and> (\<exists>d. AddWidget d \<in> set after \<and> wd_id d = None))
   \<and> listed uploadFails = Some [otherWidget, textWidget]
   \<and> fetched uploadFails = Some imageResponse
   \<and> w_class textWidget = TextAreaWidget
   \<and> startsWith (toLowerCase ''image/png'') ''image/''
   \<and> upload uploadFails (fetchUrl ''rhurricane.net'') = Resolved None
   \<and> outcome (onRun uploadFails) = Skipped UploadFailed"
proof -
  have l: "listed (samplePlatform textResponse [imageWidget]) = Some [imageWidget]"
    by code_simp
  have s: "subredditName (samplePlatform textResponse [imageWidget]) = Some ''hurricane''"
    by code_simp
  have n: "settings (samplePlatform textResponse [imageWidget]) SummaryWidgetName
             = Resolved (Some ''Tropical Summary'')"
    by code_simp
  have d: "settings (samplePlatform textResponse [imageWidget]) SummaryWidgetDomain
             = Resolved (Some ''rhurricane.net'')"
    by code_simp
  have m: "filter (\<lambda>w. lowerCase (samplePlatform textResponse [imageWidget]) (w_name w)
                     = lowerCase (samplePlatform textResponse [imageWidget]) ''Tropical Summary'')
             [imageWidget] = [imageWidget]"
    by code_simp
  have f: "fetched (samplePlatform textResponse [imageWidget]) = Some textResponse"
    by code_simp
  have c: "contentType textResponse = Some ''text/plain; charset=utf-8''"
    by code_simp
  have i: "\<not> startsWith (toLowerCase ''text/plain; charset=utf-8'') ''image/''"
    by code_simp
  have k: "w_class imageWidget = ImageWidget"
    by code_simp
  have v: "(w_class imageWidget = ImageWidget
            \<and> \<not> startsWith (toLowerCase ''text/plain; charset=utf-8'') ''image/'')
         \<or> (w_class imageWidget = TextAreaWidget
            \<and> startsWith (toLowerCase ''text/plain; charset=utf-8'') ''image/'')"
    using k i by simp
  have x: "deleteWidget (samplePlatform textResponse [imageWidget]) ''hurricane''
             (w_id imageWidget) = Resolved ()"
    by code_simp
  have b: "body textResponse = Resolved ''No active storms.''"
    by code_simp
  from variant_change_deletes_then_creates [OF l s n d m f c v] x b i
  have created: "\<exists>before after.
         calls (onRun (samplePlatform textResponse [imageWidget]))
           = before @ DeleteWidget ''hurricane'' (w_id imageWidget) # after
         \<and> mutations before = []
         \<and> filter isUpdate after = []
         \<and> (\<exists>d. AddWidget d \<in> set after \<and> wd_id d = None)"
    by auto
  have l': "listed uploadFails = Some [otherWidget, textWidget]"
    by code_simp
  have s': "subredditName uploadFails = Some ''hurricane''"
    by code_simp
  have n': "settings uploadFails SummaryWidgetName = Resolved (Some ''Tropical Summary'')"
    by code_simp
  have d': "settings uploadFails SummaryWidgetDomain = Resolved (Some ''rhurricane.net'')"
    by code_simp
  have m': "filter (\<lambda>w. lowerCase uploadFails (w_name w)
                      = lowerCase uploadFails ''Tropical Summary'')
              [otherWidget, textWidget] = [textWidget]"
    by code_simp
  have f': "fetched uploadFails = Some imageResponse"
    by code_simp
  have c': "contentType imageResponse = Some ''image/png''"
    by code_simp
  have i': "startsWith (toLowerCase ''image/png'') ''image/''"
    by code_simp
  have k': "w_class textWidget = TextAreaWidget"
    by code_simp
  have v': "(w_class textWidget = ImageWidget
             \<and> \<not> startsWith (toLowerCase ''image/png'') ''image/'')
          \<or> (w_class textWidget = TextAreaWidget
             \<and> startsWith (toLowerCase ''image/png'') ''image/'')"
    using k' i' by simp
  have x': "deleteWidget uploadFails ''hurricane'' (w_id textWidget) = Resolved ()"
    by code_simp
  have u': "upload uploadFails (fetchUrl ''rhurricane.net'') = Resolved None"
    by code_simp
  from variant_change_deletes_then_creates [OF l' s' n' d' m' f' c' v'] x' i' u'
  have skipped: "outcome (onRun uploadFails) = Skipped UploadFailed"
    by auto
  from created skipped l m f k i x b l' f' k' i' u' show ?thesis
    by blast
qed

text \<open>
  C3, where the claim fails: one matching text widget, image content, and an upload that
  yields no asset. The widget is deleted and the run ends as the upload-failed skip, with
  no create.
\<close>

theorem variant_change_counterexample:
  "listed uploadFails = Some [otherWidget, textWidget]
   \<and> settings uploadFails SummaryWidgetName = Resolved (Some ''Tropical Summary'')
   \<and> nameMatchWidgets uploadFails [otherWidget, textWidget]
        (lowerCase uploadFails ''Tropical Summary'') = [textWidget]
   \<and> w_class textWidget = TextAreaWidget
   \<and> fetched uploadFails = Some imageResponse
   \<and> contentType imageResponse = Some ''image/png''
   \<and> startsWith (toLowerCase ''image/png'') ''image/''
   \<and> outcome (onRun uploadFails) = Skipped UploadFailed
   \<and> calls (onRun uploadFails) =
       [SettingsGet SummaryWidgetName, SettingsGet SummaryWidgetDomain,
        RedisGet SummaryLastModified,
        Fetch ''https://rhurricane.net/api/v1'' (Some ''Mon, 02 Nov 2026 08:00:00 GMT''),
        GetWidgets ''hurricane'', DeleteWidget ''hurricane'' ''widget_1'',
        MediaUpload ''https://rhurricane.net/api/v1'']
   \<and> filter isCreate (calls (onRun uploadFails)) = []"
  by code_simp

text \<open>
  C4, as the code has it. In every run whose listing holds exactly one widget matching the
  configured name, that widget a text widget (with a non-empty \<^verbatim>\<open>id\<close>), and whose
  response is classified as text: nothing is deleted and nothing created; every update
  invoked carries the existing widget's \<^verbatim>\<open>id\<close>, and one is invoked, with the body
  as its text, once the body has been read; the run ends as \<open>Updated\<close> exactly when
  that update reports success (whatever becomes of the token write that follows), and as
  the update-failed skip when it reports failure. Names match when the runtime's
  \<^verbatim>\<open>toLowerCase\<close> makes them equal; on the witness's platform the setting and
  the widget name differ in the case of an accented letter.
\<close>

theorem same_variant_text_updates_in_place:
  assumes "listed ctx = Some subWidgets"
    and "settings ctx SummaryWidgetName = Resolved (Some name)"
    and "filter (\<lambda>w. lowerCase ctx (w_name w) = lowerCase ctx name) subWidgets = [w]"
    and "w_class w = TextAreaWidget" and "w_id w \<noteq> []"
    and "fetched ctx = Some r" and "contentType r = Some ct"
    and "startsWith (toLowerCase ct) ''text/plain''"
  shows "filter isDelete (calls (onRun ctx)) = []
       \<and> filter isCreate (calls (onRun ctx)) = []
       \<and> (\<forall>d. UpdateWidget d \<in> set (calls (onRun ctx)) \<longrightarrow> wd_id d = Some (w_id w))
       \<and> (\<forall>t. body r = Resolved t
            \<longrightarrow> (\<exists>d. UpdateWidget d \<in> set (calls (onRun ctx))
                    \<and> wd_id d = Some (w_id w) \<and> wd_text d = Some t))
       \<and> (outcome (onRun ctx) = Updated \<longleftrightarrow>
            (\<exists>d a. UpdateWidget d \<in> set (calls (onRun ctx))
                  \<and> UpdateTextAreaWidget ctx d = Resolved (Some a)))
       \<and> (\<forall>d. UpdateWidget d \<in> set (calls (onRun ctx))
                \<and> UpdateTextAreaWidget ctx d = Resolved None
            \<longrightarrow> outcome (onRun ctx) = Skipped UpdateFailed)"
proof -
  obtain subreddit name' widgetDomain r' ct' where
    l: "settings ctx SummaryWidgetName = Resolved (Some name')"
       "fetched ctx = Some r'" "contentType r' = Some ct'"
       "getWidgets ctx subreddit = Resolved subWidgets"
       "calls (onRun ctx) =
          [SettingsGet SummaryWidgetName, SettingsGet SummaryWidgetDomain,
           RedisGet SummaryLastModified,
           Fetch (fetchUrl widgetDomain) (ifModifiedSince (redis ctx SummaryLastModified))]
          @ calls (fetchExistingWidgets ctx r' (startsWith (toLowerCase ct') ''image/'')
                     subreddit (lowerCase ctx name') (fetchUrl widgetDomain))"
       "outcome (onRun ctx) =
          outcome (fetchExistingWidgets ctx r' (startsWith (toLowerCase ct') ''image/'')
                     subreddit (lowerCase ctx name') (fetchUrl widgetDomain))"
    by (rule listed_run [OF assms(1)])
  let ?u = "fetchUrl widgetDomain"
  let ?n = "lowerCase ctx name"
  let ?d = "\<lambda>t. buildWidgetData False (Some w) subreddit ?n (Some t) None"
  from l assms(2,6,7) have e: "name' = name" "r' = r" "ct' = ct"
    by simp_all
  have img: "startsWith (toLowerCase ct) ''image/'' = False"
    using text_is_not_image [OF assms(8)] by simp
  have m: "nameMatchWidgets ctx subWidgets ?n = [w]"
    using assms(3) by (simp add: nameMatchWidgets_def)
  have "fetchExistingWidgets ctx r False subreddit ?n ?u =
          called (GetWidgets subreddit) (imageUpload ctx r False (Some w) subreddit ?n ?u)"
    using assms(4)
    by (simp add: fetchExistingWidgets_single [OF l(4) m] checkExistingWidgetType_same)
  with l(5,6) have
    c: "calls (onRun ctx) =
          [SettingsGet SummaryWidgetName, SettingsGet SummaryWidgetDomain,
           RedisGet SummaryLastModified,
           Fetch ?u (ifModifiedSince (redis ctx SummaryLastModified)), GetWidgets subreddit]
          @ calls (imageUpload ctx r False (Some w) subreddit ?n ?u)"
    and o: "outcome (onRun ctx) = outcome (imageUpload ctx r False (Some w) subreddit ?n ?u)"
    unfolding e img by simp_all
  show ?thesis
  proof (cases "body r")
    case Rejected
    then show ?thesis
      by (simp add: c o update_path [OF assms(5)])
  next
    case (Resolved t)
    have i: "wd_id (?d t) = Some (w_id w)"
      by simp
    have k: "updateWidget ctx (?d t) = awaited (UpdateTextAreaWidget ctx (?d t))"
      by (simp add: updateWidget_def)
    have cs: "calls (onRun ctx) =
          [SettingsGet SummaryWidgetName, SettingsGet SummaryWidgetDomain,
           RedisGet SummaryLastModified,
           Fetch ?u (ifModifiedSince (redis ctx SummaryLastModified)), GetWidgets subreddit,
           ReadText, UpdateWidget (?d t)]
          @ (case UpdateTextAreaWidget ctx (?d t) of
               Resolved (Some a) \<Rightarrow> calls (saveLastModified ctx r Updated)
             | _ \<Rightarrow> [])"
      by (simp add: c update_path [OF assms(5)] Resolved addOrUpdate_update [OF i assms(5)] k
            awaited_def split: reply.splits option.splits)
    have os: "outcome (onRun ctx) =
          (case UpdateTextAreaWidget ctx (?d t) of
             Rejected \<Rightarrow> Crashed CollaboratorError
           | Resolved None \<Rightarrow> Skipped UpdateFailed
           | Resolved (Some a) \<Rightarrow> Updated)"
      by (simp add: o update_path [OF assms(5)] Resolved addOrUpdate_update [OF i assms(5)] k
            awaited_def split: reply.splits option.splits)
    have only: "UpdateWidget d \<in> set (calls (onRun ctx)) \<longleftrightarrow> d = ?d t" for d
      by (auto simp: cs saveLastModified_calls split: reply.splits option.splits)
    have "filter isDelete (calls (onRun ctx)) = []" "filter isCreate (calls (onRun ctx)) = []"
      by (simp_all add: cs split: reply.splits option.splits)
    moreover have "\<forall>d. UpdateWidget d \<in> set (calls (onRun ctx)) \<longrightarrow> wd_id d = Some (w_id w)"
      by (simp add: only)
    moreover have "\<forall>t. body r = Resolved t
            \<longrightarrow> (\<exists>d. UpdateWidget d \<in> set (calls (onRun ctx))
                    \<and> wd_id d = Some (w_id w) \<and> wd_text d = Some t)"
      by (simp add: only Resolved buildWidgetData_def)
    moreover have "outcome (onRun ctx) = Updated \<longleftrightarrow>
            (\<exists>d a. UpdateWidget d \<in> set (calls (onRun ctx))
                  \<and> UpdateTextAreaWidget ctx d = Resolved (Some a))"
      by (simp add: only os split: reply.splits option.splits)
    moreover have "\<forall>d. UpdateWidget d \<in> set (calls (onRun ctx))
                \<and> UpdateTextAreaWidget ctx d = Resolved None
            \<longrightarrow> outcome (onRun ctx) = Skipped UpdateFailed"
      by (simp add: only os)
    ultimately show ?thesis
      by (intro conjI)
  qed
qed


theorem same_variant_text_updates_in_place_witness:
  "listed (accentPlatform textResponse [smallEteText]) = Some [smallEteText]
   \<and> settings (accentPlatform textResponse [smallEteText]) SummaryWidgetName
       = Resolved (Some capitalEte)
   \<and> filter (\<lambda>w. lowerCase (accentPlatform textResponse [smallEteText]) (w_name w)
                   = lowerCase (accentPlatform textResponse [smallEteText]) capitalEte)
        [smallEteText] = [smallEteText]
   \<and> w_class smallEteText = TextAreaWidget \<and> w_id smallEteText \<noteq> []
   \<and> fetched (accentPlatform textResponse [smallEteText]) = Some textResponse
   \<and> startsWith (toLowerCase ''text/plain; charset=utf-8'') ''text/plain''
   \<and> body textResponse = Resolved ''No active storms.''
   \<and> filter isDelete (calls (onRun (accentPlatform textResponse [smallEteText]))) = []
   \<and> filter isCreate (calls (onRun (accentPlatform textResponse [smallEteText]))) = []
   \<and> (\<exists>d. UpdateWidget d \<in> set (calls (onRun (accentPlatform textResponse [smallEteText])))
          \<and> wd_id d = Some (w_id smallEteText) \<and> wd_text d = Some ''No active storms.'')
   \<and> outcome (onRun (accentPlatform textResponse [smallEteText])) = Updated"
proof -
  have l: "listed (accentPlatform textResponse [smallEteText]) = Some [smallEteText]"
    by code_simp
  have n: "settings (accentPlatform textResponse [smallEteText]) SummaryWidgetName
             = Resolved (Some capitalEte)"
    by code_simp
  have m: "filter (\<lambda>w. lowerCase (accentPlatform textResponse [smallEteText]) (w_name w)
                     = lowerCase (accentPlatform textResponse [smallEteText]) capitalEte)
             [smallEteText] = [smallEteText]"
    by code_simp
  have k: "w_class smallEteText = TextAreaWidget" and i: "w_id smallEteText \<noteq> []"
    by code_simp+
  have f: "fetched (accentPlatform textResponse [smallEteText]) = Some textResponse"
    by code_simp
  have c: "contentType textResponse = Some ''text/plain; charset=utf-8''"
    by code_simp
  have t: "startsWith (toLowerCase ''text/plain; charset=utf-8'') ''text/plain''"
    by code_simp
  have b: "body textResponse = Resolved ''No active storms.''"
    by code_simp
  have u: "\<exists>a. UpdateTextAreaWidget (accentPlatform textResponse [smallEteText]) d
             = Resolved (Some a)" for d
    by (simp add: accentPlatform_def samplePlatform_def)
  note inst = same_variant_text_updates_in_place [OF l n m k i f c t]
  from inst b have e: "\<exists>d. UpdateWidget d
          \<in> set (calls (onRun (accentPlatform textResponse [smallEteText])))
          \<and> wd_id d = Some (w_id smallEteText) \<and> wd_text d = Some ''No active storms.''"
    by blast
  with inst u have "outcome (onRun (accentPlatform textResponse [smallEteText])) = Updated"
    by blast
  with inst e l n m k i f t b show ?thesis
    by blast
qed

text \<open>
  C4, where the claim fails: one matching text widget, text content, and an update that
  reports failure. The run ends as the update-failed skip.
\<close>

theorem same_variant_counterexample:
  "listed updateFails = Some [textWidget, otherWidget]
   \<and> settings updateFails SummaryWidgetName = Resolved (Some ''Tropical Summary'')
   \<and> nameMatchWidgets updateFails [textWidget, otherWidget]
        (lowerCase updateFails ''Tropical Summary'') = [textWidget]
   \<and> w_class textWidget = TextAreaWidget
   \<and> fetched updateFails = Some textResponse
   \<and> contentType textResponse = Some ''text/plain; charset=utf-8''
   \<and> startsWith (toLowerCase ''text/plain; charset=utf-8'') ''text/plain''
   \<and> outcome (onRun updateFails) = Skipped UpdateFailed"
  by code_simp

text \<open>
  C5, as the code has it. The status gate of lines 289-291 passes status 200 only: a run
  whose fetch answers 200 never ends as the http-error skip, and a run whose fetch answers
  any status other than 200 and 304 (the other 2xx statuses among them) ends as the
  http-error skip, having listed, changed, uploaded and written nothing. The claim promised
  the first half for every 2xx status; it fails at 204.
\<close>

theorem http_error_unless_200:
  assumes "fetched ctx = Some r"
  shows "(status r = 200 \<longrightarrow> outcome (onRun ctx) \<noteq> Skipped HttpError)
       \<and> (status r \<noteq> 200 \<and> status r \<noteq> 304
            \<longrightarrow> outcome (onRun ctx) = Skipped HttpError
              \<and> sideEffects (calls (onRun ctx)) = []
              \<and> redis_after (onRun ctx) = redis ctx)"
proof -
  from fetched_run [OF assms] obtain subreddit name widgetDomain where
    c: "calls (onRun ctx) =
       [SettingsGet SummaryWidgetName, SettingsGet SummaryWidgetDomain,
        RedisGet SummaryLastModified,
        Fetch (fetchUrl widgetDomain) (ifModifiedSince (redis ctx SummaryLastModified))]
       @ calls (apiResponseValidation ctx r subreddit (lowerCase ctx name) (fetchUrl widgetDomain))"
    and o: "outcome (onRun ctx) =
       outcome (apiResponseValidation ctx r subreddit (lowerCase ctx name) (fetchUrl widgetDomain))"
    and s: "redis_after (onRun ctx) =
       redis_after (apiResponseValidation ctx r subreddit (lowerCase ctx name) (fetchUrl widgetDomain))"
    by blast
  have ok: "status r = 200 \<Longrightarrow>
      outcome (apiResponseValidation ctx r subreddit (lowerCase ctx name) (fetchUrl widgetDomain))
        \<noteq> Skipped HttpError"
    by (simp add: apiResponseValidation_def split: option.splits)
  have bad: "status r \<noteq> 200 \<Longrightarrow> status r \<noteq> 304 \<Longrightarrow>
      apiResponseValidation ctx r subreddit (lowerCase ctx name) (fetchUrl widgetDomain)
        = stop ctx (Skipped HttpError)"
    by (simp add: apiResponseValidation_def)
  show ?thesis
    using ok bad by (auto simp: c o s)
qed

theorem http_error_unless_200_witness:
  "fetched (samplePlatform textResponse []) = Some textResponse
   \<and> status textResponse = 200
   \<and> outcome (onRun (samplePlatform textResponse [])) \<noteq> Skipped HttpError
   \<and> fetched (samplePlatform serverError []) = Some serverError
   \<and> status serverError \<noteq> 200 \<and> status serverError \<noteq> 304
   \<and> outcome (onRun (samplePlatform serverError [])) = Skipped HttpError
   \<and> sideEffects (calls (onRun (samplePlatform serverError []))) = []
   \<and> redis_after (onRun (samplePlatform serverError [])) = redis (samplePlatform serverError [])"
proof -
  have f: "fetched (samplePlatform textResponse []) = Some textResponse"
    by code_simp
  have g: "fetched (samplePlatform serverError []) = Some serverError"
    by code_simp
  have s: "status textResponse = 200" "status serverError \<noteq> 200 \<and> status serverError \<noteq> 304"
    by code_simp+
  from http_error_unless_200 [OF f] http_error_unless_200 [OF g] f g s
  show ?thesis by simp
qed

text \<open>
  C5, where the claim fails: status 204 is a success status, and the run ends as the
  http-error skip.
\<close>

theorem http_error_counterexample:
  "fetched (samplePlatform noContent []) = Some noContent
   \<and> status noContent = 204
   \<and> outcome (onRun (samplePlatform noContent [])) = Skipped HttpError"
  by code_simp

text \<open>
  C6, as the code has it. The declared content type is lower-cased before the two prefix
  tests of line 295: a run whose fetch answers 200 with a declared type that, lower-cased,
  starts with neither \<^verbatim>\<open>text/plain\<close> nor \<^verbatim>\<open>image/\<close> ends as the
  invalid-content-type skip, and whatever the status such a run lists, changes, uploads and
  writes nothing. Read on the declared type as sent, the claim fails at
  \<^verbatim>\<open>IMAGE/PNG\<close>, which is taken as an image.
\<close>

theorem invalid_content_type_skipped:
  assumes "fetched ctx = Some r" and "contentType r = Some ct"
    and "\<not> startsWith (toLowerCase ct) ''text/plain''"
    and "\<not> startsWith (toLowerCase ct) ''image/''"
  shows "(status r = 200 \<longrightarrow> outcome (onRun ctx) = Skipped InvalidContentType)
       \<and> sideEffects (calls (onRun ctx)) = []
       \<and> redis_after (onRun ctx) = redis ctx"
proof -
  from fetched_run [OF assms(1)] obtain subreddit name widgetDomain where
    c: "calls (onRun ctx) =
       [SettingsGet SummaryWidgetName, SettingsGet SummaryWidgetDomain,
        RedisGet SummaryLastModified,
        Fetch (fetchUrl widgetDomain) (ifModifiedSince (redis ctx SummaryLastModified))]
       @ calls (apiResponseValidation ctx r subreddit (lowerCase ctx name) (fetchUrl widgetDomain))"
    and o: "outcome (onRun ctx) =
       outcome (apiResponseValidation ctx r subreddit (lowerCase ctx name) (fetchUrl widgetDomain))"
    and s: "redis_after (onRun ctx) =
       redis_after (apiResponseValidation ctx r subreddit (lowerCase ctx name) (fetchUrl widgetDomain))"
    by blast
  have "apiResponseValidation ctx r subreddit (lowerCase ctx name) (fetchUrl widgetDomain)
          = stop ctx (if status r = 304 then Unchanged
                      else if status r \<noteq> 200 then Skipped HttpError
                      else Skipped InvalidContentType)"
    using assms(2-4) by (simp add: apiResponseValidation_def)
  then show ?thesis
    by (simp add: c o s)
qed

theorem invalid_content_type_skipped_witness:
  "fetched (samplePlatform htmlResponse [textWidget]) = Some htmlResponse
   \<and> contentType htmlResponse = Some ''Text/HTML''
   \<and> \<not> startsWith (toLowerCase ''Text/HTML'') ''text/plain''
   \<and> \<not> startsWith (toLowerCase ''Text/HTML'') ''image/''
   \<and> status htmlResponse = 200
   \<and> outcome (onRun (samplePlatform htmlResponse [textWidget])) = Skipped InvalidContentType
   \<and> sideEffects (calls (onRun (samplePlatform htmlResponse [textWidget]))) = []
   \<and> redis_after (onRun (samplePlatform htmlResponse [textWidget]))
       = redis (samplePlatform htmlResponse [textWidget])"
proof -
  have f: "fetched (samplePlatform htmlResponse [textWidget]) = Some htmlResponse"
    by code_simp
  have c: "contentType htmlResponse = Some ''Text/HTML''" "status htmlResponse = 200"
    by code_simp+
  have t: "\<not> startsWith (toLowerCase ''Text/HTML'') ''text/plain''"
    by code_simp
  have i: "\<not> startsWith (toLowerCase ''Text/HTML'') ''image/''"
    by code_simp
  from invalid_content_type_skipped [OF f c(1) t i] f c t i
  show ?thesis by simp
qed

text \<open>
  C6, where the claim fails: \<^verbatim>\<open>IMAGE/PNG\<close> starts with neither prefix as sent, and the
  run goes on to create an image widget.
\<close>

theorem invalid_content_type_counterexample:
  "fetched (samplePlatform upperCaseImage []) = Some upperCaseImage
   \<and> contentType upperCaseImage = Some ''IMAGE/PNG''
   \<and> \<not> startsWith ''IMAGE/PNG'' ''text/plain''
   \<and> \<not> startsWith ''IMAGE/PNG'' ''image/''
   \<and> outcome (onRun (samplePlatform upperCaseImage [])) = Created"
  by code_simp

text \<open>
  C7. In every run whose widget listing holds more than one widget matching the configured
  name case-insensitively (the runtime's \<^verbatim>\<open>toLowerCase\<close> makes the names equal),
  the job ends as the ambiguous-existing skip and nothing is deleted, created, updated,
  uploaded, or written to the store, whatever the content was classified as. On the
  witness's platform the two matching names differ in the case of an accented letter.
\<close>

theorem ambiguous_existing_skipped:
  assumes "listed ctx = Some subWidgets"
    and "settings ctx SummaryWidgetName = Resolved (Some name)"
    and "length (filter (\<lambda>w. lowerCase ctx (w_name w) = lowerCase ctx name) subWidgets) > 1"
  shows "outcome (onRun ctx) = Skipped AmbiguousExisting
       \<and> mutations (calls (onRun ctx)) = []
       \<and> redis_after (onRun ctx) = redis ctx"
proof -
  from listed_onRun [OF assms(1)] assms(2) obtain subreddit widgetDomain r ct where
    g: "getWidgets ctx subreddit = Resolved subWidgets"
    and run: "onRun ctx =
             called (SettingsGet SummaryWidgetName)
               (called (SettingsGet SummaryWidgetDomain)
                  (called (RedisGet SummaryLastModified)
                     (called (Fetch (fetchUrl widgetDomain)
                                (ifModifiedSince (redis ctx SummaryLastModified)))
                        (fetchExistingWidgets ctx r (startsWith (toLowerCase ct) ''image/'')
                           subreddit (lowerCase ctx name) (fetchUrl widgetDomain)))))"
    by auto
  have "fetchExistingWidgets ctx r (startsWith (toLowerCase ct) ''image/'')
          subreddit (lowerCase ctx name) (fetchUrl widgetDomain)
        = called (GetWidgets subreddit) (stop ctx (Skipped AmbiguousExisting))"
    using g assms(3) by (simp add: fetchExistingWidgets_def nameMatchWidgets_def)
  with run show ?thesis by simp
qed

theorem ambiguous_existing_skipped_witness:
  "listed (accentPlatform imageResponse [smallEteText, otherWidget, capitalEteImage])
     = Some [smallEteText, otherWidget, capitalEteImage]
   \<and> settings (accentPlatform imageResponse [smallEteText, otherWidget, capitalEteImage])
       SummaryWidgetName = Resolved (Some capitalEte)
   \<and> length (filter
         (\<lambda>w. lowerCase (accentPlatform imageResponse
                           [smallEteText, otherWidget, capitalEteImage]) (w_name w)
             = lowerCase (accentPlatform imageResponse
                           [smallEteText, otherWidget, capitalEteImage]) capitalEte)
         [smallEteText, otherWidget, capitalEteImage]) = 2
   \<and> outcome (onRun (accentPlatform imageResponse [smallEteText, otherWidget, capitalEteImage]))
       = Skipped AmbiguousExisting
   \<and> mutations
        (calls (onRun (accentPlatform imageResponse [smallEteText, otherWidget, capitalEteImage])))
       = []
   \<and> redis_after (onRun (accentPlatform imageResponse [smallEteText, otherWidget, capitalEteImage]))
       = redis (accentPlatform imageResponse [smallEteText, otherWidget, capitalEteImage])"
proof -
  have l: "listed (accentPlatform imageResponse [smallEteText, otherWidget, capitalEteImage])
     = Some [smallEteText, otherWidget, capitalEteImage]"
    by code_simp
  have n: "settings (accentPlatform imageResponse [smallEteText, otherWidget, capitalEteImage])
       SummaryWidgetName = Resolved (Some capitalEte)"
    by code_simp
  have m: "length (filter
         (\<lambda>w. lowerCase (accentPlatform imageResponse
                           [smallEteText, otherWidget, capitalEteImage]) (w_name w)
             = lowerCase (accentPlatform imageResponse
                           [smallEteText, otherWidget, capitalEteImage]) capitalEte)
         [smallEteText, otherWidget, capitalEteImage]) = 2"
    by code_simp
  then have g: "length (filter
         (\<lambda>w. lowerCase (accentPlatform imageResponse
                           [smallEteText, otherWidget, capitalEteImage]) (w_name w)
             = lowerCase (accentPlatform imageResponse
                           [smallEteText, otherWidget, capitalEteImage]) capitalEte)
         [smallEteText, otherWidget, capitalEteImage]) > 1"
    by simp
  from ambiguous_existing_skipped [OF l n g] l n m
  show ?thesis by simp
qed

text \<open>
  C8. Whatever the settings, the store and the collaborators' answers, one run issues at
  most one widget delete, at most one media upload, at most one widget create or update,
  and at most one write of the cache token. On the witness's platform each bound is met.
\<close>

theorem at_most_one_of_each_effect:
  "length (filter isDelete (calls (onRun ctx))) \<le> 1
   \<and> length (filter isUpload (calls (onRun ctx))) \<le> 1
   \<and> length (filter isCreateOrUpdate (calls (onRun ctx))) \<le> 1
   \<and> length (filter isTokenWrite (calls (onRun ctx))) \<le> 1"
  using onRun_counts [of ctx] by simp

theorem at_most_one_of_each_effect_witness:
  "length (filter isDelete (calls (onRun (samplePlatform imageResponse [textWidget])))) = 1
   \<and> length (filter isUpload (calls (onRun (samplePlatform imageResponse [textWidget])))) = 1
   \<and> length (filter isCreateOrUpdate
                (calls (onRun (samplePlatform imageResponse [textWidget])))) = 1
   \<and> length (filter isTokenWrite
                (calls (onRun (samplePlatform imageResponse [textWidget])))) = 1"
proof -
  have e: "length (filter isDelete (calls (onRun (samplePlatform imageResponse [textWidget])))) = 1"
    "length (filter isUpload (calls (onRun (samplePlatform imageResponse [textWidget])))) = 1"
    "length (filter isCreateOrUpdate
               (calls (onRun (samplePlatform imageResponse [textWidget])))) = 1"
    "length (filter isTokenWrite
               (calls (onRun (samplePlatform imageResponse [textWidget])))) = 1"
    by code_simp+
  from at_most_one_of_each_effect [of "samplePlatform imageResponse [textWidget]"] e
  show ?thesis by simp
qed

text \<open>
  C9. A response without a \<^verbatim>\<open>Content-Type\<close> header is treated as one with an
  unrecognised type: the run is the same, call for call, as with any declared type that is
  neither text nor image, it is the invalid-content-type skip once the status is 200, and
  it lists, changes, uploads and writes nothing. The classification ignores letter case: a
  run on a declared type is the same run as on its lower-case form.
\<close>

theorem content_type_missing_or_other_case:
  "(fetched ctx = Some r \<and> contentType r = None
      \<longrightarrow> (status r = 200 \<longrightarrow> outcome (onRun ctx) = Skipped InvalidContentType)
        \<and> sideEffects (calls (onRun ctx)) = []
        \<and> redis_after (onRun ctx) = redis ctx)
   \<and> (\<not> startsWith (toLowerCase ct) ''text/plain'' \<and> \<not> startsWith (toLowerCase ct) ''image/''
      \<longrightarrow> onRun (declaring None ctx') = onRun (declaring (Some ct) ctx'))
   \<and> onRun (declaring (Some ct') ctx') = onRun (declaring (Some (toLowerCase ct')) ctx')"
proof (intro conjI impI)
  assume a: "fetched ctx = Some r \<and> contentType r = None"
  from a fetched_run [of ctx r] obtain subreddit name widgetDomain where
    c: "calls (onRun ctx) =
       [SettingsGet SummaryWidgetName, SettingsGet SummaryWidgetDomain,
        RedisGet SummaryLastModified,
        Fetch (fetchUrl widgetDomain) (ifModifiedSince (redis ctx SummaryLastModified))]
       @ calls (apiResponseValidation ctx r subreddit (lowerCase ctx name) (fetchUrl widgetDomain))"
    and o: "outcome (onRun ctx) =
       outcome (apiResponseValidation ctx r subreddit (lowerCase ctx name) (fetchUrl widgetDomain))"
    and s: "redis_after (onRun ctx) =
       redis_after (apiResponseValidation ctx r subreddit (lowerCase ctx name) (fetchUrl widgetDomain))"
    by blast
  have v: "apiResponseValidation ctx r subreddit (lowerCase ctx name) (fetchUrl widgetDomain)
          = stop ctx (if status r = 304 then Unchanged
                      else if status r \<noteq> 200 then Skipped HttpError
                      else Skipped InvalidContentType)"
    using a by (simp add: apiResponseValidation_def)
  show "status r = 200 \<Longrightarrow> outcome (onRun ctx) = Skipped InvalidContentType"
    by (simp add: o v)
  show "sideEffects (calls (onRun ctx)) = []"
    by (simp add: c v)
  show "redis_after (onRun ctx) = redis ctx"
    by (simp add: s v)
next
  assume "\<not> startsWith (toLowerCase ct) ''text/plain'' \<and> \<not> startsWith (toLowerCase ct) ''image/''"
  then show "onRun (declaring None ctx') = onRun (declaring (Some ct) ctx')"
    by (intro onRun_declaring) (simp add: apiResponseValidation_unrecognised)
next
  show "onRun (declaring (Some ct') ctx') = onRun (declaring (Some (toLowerCase ct')) ctx')"
    by (intro onRun_declaring) (simp add: apiResponseValidation_lower)
qed

theorem content_type_missing_or_other_case_witness:
  "fetched (samplePlatform noHeader [textWidget]) = Some noHeader
   \<and> contentType noHeader = None \<and> status noHeader = 200
   \<and> outcome (onRun (samplePlatform noHeader [textWidget])) = Skipped InvalidContentType
   \<and> sideEffects (calls (onRun (samplePlatform noHeader [textWidget]))) = []
   \<and> redis_after (onRun (samplePlatform noHeader [textWidget]))
       = redis (samplePlatform noHeader [textWidget])
   \<and> \<not> startsWith (toLowerCase ''application/json'') ''text/plain''
   \<and> \<not> startsWith (toLowerCase ''application/json'') ''image/''
   \<and> onRun (declaring None (samplePlatform textResponse [textWidget]))
       = onRun (declaring (Some ''application/json'') (samplePlatform textResponse [textWidget]))
   \<and> toLowerCase ''IMAGE/PNG'' = ''image/png''
   \<and> onRun (declaring (Some ''IMAGE/PNG'') (samplePlatform textResponse [textWidget]))
       = onRun (declaring (Some ''image/png'') (samplePlatform textResponse [textWidget]))"
proof -
  have f: "fetched (samplePlatform noHeader [textWidget]) = Some noHeader
           \<and> contentType noHeader = None"
    by code_simp
  have s: "status noHeader = 200"
    by code_simp
  have j: "\<not> startsWith (toLowerCase ''application/json'') ''text/plain''
           \<and> \<not> startsWith (toLowerCase ''application/json'') ''image/''"
    by code_simp
  have l: "toLowerCase ''IMAGE/PNG'' = ''image/png''"
    by code_simp
  from content_type_missing_or_other_case
         [of "samplePlatform noHeader [textWidget]" noHeader "''application/json''"
             "samplePlatform textResponse [textWidget]" "''IMAGE/PNG''"] f s j l
  show ?thesis by simp
qed

text \<open>
  C10. \<open>updateWidget\<close> throws on a widget type other than \<^verbatim>\<open>image\<close> and
  \<^verbatim>\<open>textarea\<close>, and the job never gets there: every update it issues carries one of
  the two types, so the helper does not throw on it and no run ends in the
  \<open>UnknownWidgetType\<close> exception.
\<close>

theorem unknown_widget_type_unreachable:
  "(wd_type d \<noteq> ''image'' \<and> wd_type d \<noteq> ''textarea''
      \<longrightarrow> updateWidget ctx d = Inl UnknownWidgetType)
   \<and> (UpdateWidget d' \<in> set (calls (onRun ctx'))
      \<longrightarrow> wd_type d' = ''image'' \<or> wd_type d' = ''textarea'')
   \<and> (UpdateWidget d' \<in> set (calls (onRun ctx'))
      \<longrightarrow> updateWidget ctx' d' \<noteq> Inl UnknownWidgetType)
   \<and> outcome (onRun ctx') \<noteq> Crashed UnknownWidgetType"
proof -
  have known: "UpdateWidget d' \<in> set (calls (onRun ctx'))
      \<Longrightarrow> wd_type d' = ''image'' \<or> wd_type d' = ''textarea''"
    using onRun_counts(5) [of ctx'] by (auto simp: list_all_iff)
  show ?thesis
    using known onRun_counts(6) [of ctx'] by (auto simp: updateWidget_unknown)
qed


theorem unknown_widget_type_unreachable_witness:
  "(wd_type buttonData \<noteq> ''image'' \<and> wd_type buttonData \<noteq> ''textarea'')
   \<and> updateWidget (samplePlatform textResponse [textWidget]) buttonData = Inl UnknownWidgetType
   \<and> UpdateWidget textData \<in> set (calls (onRun (samplePlatform textResponse [textWidget])))
   \<and> wd_type textData = ''textarea''
   \<and> updateWidget (samplePlatform textResponse [textWidget]) textData \<noteq> Inl UnknownWidgetType"
proof -
  have b: "wd_type buttonData \<noteq> ''image'' \<and> wd_type buttonData \<noteq> ''textarea''"
    by code_simp
  have u: "UpdateWidget textData \<in> set (calls (onRun (samplePlatform textResponse [textWidget])))"
    by code_simp
  have t: "wd_type textData = ''textarea''"
    by code_simp
  from unknown_widget_type_unreachable
         [of buttonData "samplePlatform textResponse [textWidget]" textData
             "samplePlatform textResponse [textWidget]"] b u t
  show ?thesis by simp
qed

end
